theory Spec2Isabelle
  imports Complex_Main
begin

section \<open>JavaScript values\<close>

text \<open>
  The service handles JSON delivered by two HTTP sources. A JavaScript number is modelled
  as a real number or one of the three special values; arithmetic is exact (the rounding
  of IEEE doubles and the sign of zero are not modelled).
\<close>

datatype jsnum = Fin real | NaN | PInf | NInf

fun js_mul :: "jsnum \<Rightarrow> jsnum \<Rightarrow> jsnum" where
  "js_mul NaN _ = NaN"
| "js_mul _ NaN = NaN"
| "js_mul (Fin a) (Fin b) = Fin (a * b)"
| "js_mul (Fin a) PInf = (if a = 0 then NaN else if 0 < a then PInf else NInf)"
| "js_mul (Fin a) NInf = (if a = 0 then NaN else if 0 < a then NInf else PInf)"
| "js_mul PInf (Fin b) = (if b = 0 then NaN else if 0 < b then PInf else NInf)"
| "js_mul NInf (Fin b) = (if b = 0 then NaN else if 0 < b then NInf else PInf)"
| "js_mul PInf PInf = PInf"
| "js_mul PInf NInf = NInf"
| "js_mul NInf PInf = NInf"
| "js_mul NInf NInf = PInf"

fun js_div :: "jsnum \<Rightarrow> jsnum \<Rightarrow> jsnum" where
  "js_div NaN _ = NaN"
| "js_div _ NaN = NaN"
| "js_div (Fin a) (Fin b) =
     (if b \<noteq> 0 then Fin (a / b) else if a = 0 then NaN else if 0 < a then PInf else NInf)"
| "js_div (Fin a) PInf = Fin 0"
| "js_div (Fin a) NInf = Fin 0"
| "js_div PInf (Fin b) = (if 0 \<le> b then PInf else NInf)"
| "js_div NInf (Fin b) = (if 0 \<le> b then NInf else PInf)"
| "js_div PInf PInf = NaN"
| "js_div PInf NInf = NaN"
| "js_div NInf PInf = NaN"
| "js_div NInf NInf = NaN"

text \<open>
  A JSON value as \<open>JSON.parse\<close> delivers it, with \<open>undefined\<close> for a property that is
  absent. An object is its list of own properties. Strings are lists of code units below
  256 (Latin-1). \<open>JFunction\<close> is a function of the runtime, by its name: no response
  contains one, but a lookup under a computed key can find one on a prototype.
\<close>

datatype json =
    JUndefined
  | JNull
  | JBool bool
  | JNum jsnum
  | JStr string
  | JArr "json list"
  | JObj "(string \<times> json) list"
  | JFunction string

text \<open>Truthiness, \<open>a || b\<close>, \<open>a && b\<close> and \<open>v != null\<close>.\<close>

fun truthy :: "json \<Rightarrow> bool" where
  "truthy JUndefined = False"
| "truthy JNull = False"
| "truthy (JBool b) = b"
| "truthy (JNum n) = (n \<noteq> Fin 0 \<and> n \<noteq> NaN)"
| "truthy (JStr s) = (s \<noteq> [])"
| "truthy (JArr _) = True"
| "truthy (JObj _) = True"
| "truthy (JFunction _) = True"

definition js_or :: "json \<Rightarrow> json \<Rightarrow> json" where
  "js_or a b = (if truthy a then a else b)"

definition js_and :: "json \<Rightarrow> json \<Rightarrow> json" where
  "js_and a b = (if truthy a then b else a)"

fun nullish :: "json \<Rightarrow> bool" where
  "nullish JUndefined = True"
| "nullish JNull = True"
| "nullish _ = False"

text \<open>
  Reading a property under a name that the source writes out (\<open>c.currencies\<close>,
  \<open>c.population\<close>, \<open>c.name\<close>, \<open>c.capital\<close>, \<open>c.region\<close>, \<open>c.flag\<close>, \<open>first.code\<close>,
  \<open>first.currency\<close>, \<open>first.name\<close>, \<open>rates.rates\<close>) of a value that is neither \<open>null\<close>
  nor \<open>undefined\<close>: the own property of an object, \<open>undefined\<close> otherwise. No prototype
  of a JSON value defines one of these names, so nothing is inherited under them. A
  function is never the receiver of such a read.
\<close>

fun js_prop :: "json \<Rightarrow> string \<Rightarrow> json" where
  "js_prop (JObj kvs) k = (case map_of kvs k of Some v \<Rightarrow> v | None \<Rightarrow> JUndefined)"
| "js_prop _ k = JUndefined"

text \<open>
  What the runtime defines and the sources use without defining it is taken as
  parameters: the number a string denotes, the string a non-string value converts to, and
  the property that the runtime itself provides for a value under a key, which is one
  inherited through the prototype chain (\<open>constructor\<close>, \<open>toString\<close>, ...) or the length
  or an index of an array or a string, and \<open>undefined\<close> when there is none.
\<close>

record host =
  StringToNumber :: "string \<Rightarrow> jsnum"
  ToString :: "json \<Rightarrow> string"
  BuiltinProperty :: "json \<Rightarrow> string \<Rightarrow> json"

text \<open>
  Reading a property under a computed key, \<open>rateMap[currency_code]\<close>: the own property of
  an object if it has one under the key, else what the runtime provides. The receiver is
  truthy where the sources do this.
\<close>

fun js_lookup :: "'a host_scheme \<Rightarrow> json \<Rightarrow> string \<Rightarrow> json" where
  "js_lookup h (JObj kvs) k =
     (case map_of kvs k of Some v \<Rightarrow> v | None \<Rightarrow> BuiltinProperty h (JObj kvs) k)"
| "js_lookup h v k = BuiltinProperty h v k"

text \<open>\<open>Number(v)\<close>: arrays and plain objects convert through their string.\<close>

fun Number_js :: "'a host_scheme \<Rightarrow> json \<Rightarrow> jsnum" where
  "Number_js h JUndefined = NaN"
| "Number_js h JNull = Fin 0"
| "Number_js h (JBool b) = Fin (if b then 1 else 0)"
| "Number_js h (JNum n) = n"
| "Number_js h (JStr s) = StringToNumber h s"
| "Number_js h v = StringToNumber h (ToString h v)"

text \<open>The key a value denotes in \<open>obj[v]\<close>.\<close>

fun property_key :: "'a host_scheme \<Rightarrow> json \<Rightarrow> string" where
  "property_key h (JStr s) = s"
| "property_key h v = ToString h v"

text \<open>\<open>String.prototype.toLowerCase\<close> on Latin-1 code units.\<close>

definition lower_char :: "char \<Rightarrow> char" where
  "lower_char c =
     (let n = of_char c :: nat
      in if (65 \<le> n \<and> n \<le> 90) \<or> (192 \<le> n \<and> n \<le> 222 \<and> n \<noteq> 215)
         then char_of (n + 32) else c)"

definition toLowerCase :: "string \<Rightarrow> string" where
  "toLowerCase s = map lower_char s"

section \<open>Errors\<close>

text \<open>
  An exception is a value: a \<open>TypeError\<close> of the language, a failed HTTP request (with
  the URL of \<open>err.response.config.url\<close> when the server answered), a database error, or
  an error of the file system. Each carries its message.
\<close>

datatype error =
    TypeError string
  | FetchError string "string option"
  | DbError string
  | IoError string

fun message :: "error \<Rightarrow> string" where
  "message (TypeError m) = m"
| "message (FetchError m _) = m"
| "message (DbError m) = m"
| "message (IoError m) = m"

fun response_url :: "error \<Rightarrow> string option" where
  "response_url (FetchError _ u) = u"
| "response_url _ = None"

text \<open>\<open>v.toLowerCase()\<close>: only a string has the method.\<close>

fun call_toLowerCase :: "json \<Rightarrow> error + string" where
  "call_toLowerCase (JStr s) = Inr (toLowerCase s)"
| "call_toLowerCase JUndefined = Inl (TypeError ''Cannot read properties of undefined'')"
| "call_toLowerCase JNull = Inl (TypeError ''Cannot read properties of null'')"
| "call_toLowerCase _ = Inl (TypeError ''toLowerCase is not a function'')"

section \<open>The estimated GDP\<close>

text \<open>
  \<open>randInt(min, max)\<close> is \<open>Math.floor(Math.random() * (max - min + 1)) + min\<close>; the
  value \<open>u\<close> that \<open>Math.random()\<close> returns is an argument.
\<close>

definition randInt :: "real \<Rightarrow> int \<Rightarrow> int \<Rightarrow> int" where
  "randInt u mn mx = \<lfloor>u * of_int (mx - mn + 1)\<rfloor> + mn"

text \<open>
  \<open>computeEstimatedGdp(population, exchange_rate)\<close> of index.js: \<open>None\<close> is \<open>null\<close>.
\<close>

definition computeEstimatedGdp :: "real \<Rightarrow> jsnum option \<Rightarrow> jsnum option \<Rightarrow> jsnum option" where
  "computeEstimatedGdp u population exchange_rate =
     (case population of
        None \<Rightarrow> None
      | Some p \<Rightarrow>
          if p = NaN then None
          else (case exchange_rate of
                  None \<Rightarrow> None
                | Some r \<Rightarrow> Some (js_div (js_mul p (Fin (of_int (randInt u 1000 2000)))) r)))"

text \<open>
  \<open>computeEstimatedGdp\<close> of the second server file (src/unnamed/part_001) tests
  \<open>!population || !exchange_rate\<close>, so zero counts as missing.
\<close>

fun num_truthy :: "jsnum option \<Rightarrow> bool" where
  "num_truthy None = False"
| "num_truthy (Some n) = (n \<noteq> Fin 0 \<and> n \<noteq> NaN)"

definition computeEstimatedGdp2 :: "real \<Rightarrow> jsnum option \<Rightarrow> jsnum option \<Rightarrow> jsnum option" where
  "computeEstimatedGdp2 u population exchange_rate =
     (if \<not> num_truthy population \<or> \<not> num_truthy exchange_rate then None
      else Some (js_div (js_mul (the population) (Fin (of_int (randInt u 1000 2000))))
                        (the exchange_rate)))"

section \<open>The table \<open>countries\<close>\<close>

text \<open>
  The record that the refresh loop builds for one country (\<open>entry\<close> in index.js), with the
  source's field names. \<open>None\<close> is \<open>null\<close>; a field that holds whatever the source
  delivered is a JSON value, with \<open>JNull\<close> for \<open>null\<close>. A timestamp is an instant.
\<close>

record entry =
  name :: json
  name_lower :: string
  capital :: json
  region :: json
  population :: "jsnum option"
  currency_code :: json
  exchange_rate :: "jsnum option"
  estimated_gdp :: "jsnum option"
  flag_url :: json
  last_refreshed_at :: nat

text \<open>A row of the table is an entry with its auto-increment \<open>id\<close>.\<close>

record row = entry +
  row_id :: nat

record db =
  rows :: "row list"
  next_id :: nat

text \<open>\<open>SELECT ... WHERE name_lower = ? LIMIT 1\<close>.\<close>

definition select_by_name_lower :: "string \<Rightarrow> db \<Rightarrow> row option" where
  "select_by_name_lower k d = find (\<lambda>r. name_lower r = k) (rows d)"

text \<open>
  The \<open>SET\<close> list shared by the \<open>UPDATE\<close> of index.js and the
  \<open>ON DUPLICATE KEY UPDATE\<close> of the second server file: every column but \<open>name\<close>,
  \<open>name_lower\<close> and \<open>id\<close>.
\<close>

definition set_columns :: "entry \<Rightarrow> row \<Rightarrow> row" where
  "set_columns e r =
     r\<lparr>capital := capital e, region := region e, population := population e,
       currency_code := currency_code e, exchange_rate := exchange_rate e,
       estimated_gdp := estimated_gdp e, flag_url := flag_url e,
       last_refreshed_at := last_refreshed_at e\<rparr>"

text \<open>\<open>UPDATE countries SET ... WHERE id = ?\<close>.\<close>

definition update_by_id :: "nat \<Rightarrow> entry \<Rightarrow> db \<Rightarrow> db" where
  "update_by_id i e d = d\<lparr>rows := map (\<lambda>r. if row_id r = i then set_columns e r else r) (rows d)\<rparr>"

text \<open>\<open>INSERT INTO countries (...) VALUES (...)\<close>: the new row takes the next id.\<close>

definition insert_row :: "entry \<Rightarrow> db \<Rightarrow> db" where
  "insert_row e d =
     \<lparr>rows = rows d @
        [\<lparr>name = name e, name_lower = name_lower e, capital = capital e, region = region e,
          population = population e, currency_code = currency_code e,
          exchange_rate = exchange_rate e, estimated_gdp = estimated_gdp e,
          flag_url = flag_url e, last_refreshed_at = last_refreshed_at e,
          row_id = next_id d\<rparr>],
      next_id = Suc (next_id d)\<rparr>"

text \<open>The lookup-then-update-or-insert of index.js.\<close>

definition upsert :: "entry \<Rightarrow> db \<Rightarrow> db" where
  "upsert e d =
     (case select_by_name_lower (name_lower e) d of
        Some existing \<Rightarrow> update_by_id (row_id existing) e d
      | None \<Rightarrow> insert_row e d)"

section \<open>The environment of a request\<close>

text \<open>
  What a handler reads from outside: the outcome of the two HTTP requests of
  \<open>fetchExternalData\<close> (the bodies of the country and of the rate response, or the
  error), the clock, the value \<open>Math.random()\<close> returns while the i-th country is
  processed, and the operations that may throw: opening the connection and the
  transaction, the statements for the i-th country, the commit, \<open>ensureCacheDir\<close>, the
  two queries after the commit, and the rendering or writing of the image.
\<close>

record env = host +
  fetch_result :: "error + (json \<times> json)"
  clock_now :: nat
  math_random :: "nat \<Rightarrow> real"
  connect_error :: "error option"
  query_error :: "nat \<Rightarrow> error option"
  commit_error :: "error option"
  mkdir_error :: "error option"
  summary_query_error :: "error option"
  image_error :: bool

section \<open>POST /countries/refresh (index.js)\<close>

text \<open>
  The currency code of a country: the first entry of \<open>c.currencies\<close> when that is a
  non-empty array, then \<open>(first && (first.code || first.currency || first.name)) || null\<close>.
\<close>

definition currency_code_of :: "json \<Rightarrow> json" where
  "currency_code_of c =
     (case js_prop c ''currencies'' of
        JArr (first # _) \<Rightarrow>
          js_or (js_and first
                   (js_or (js_or (js_prop first ''code'') (js_prop first ''currency''))
                          (js_prop first ''name'')))
                JNull
      | _ \<Rightarrow> JNull)"

text \<open>\<open>c.population != null ? Number(c.population) : null\<close>.\<close>

definition population_of :: "'a host_scheme \<Rightarrow> json \<Rightarrow> jsnum option" where
  "population_of h c =
     (if nullish (js_prop c ''population'') then None
      else Some (Number_js h (js_prop c ''population'')))"

text \<open>\<open>(c.name || '').toLowerCase()\<close>: throws on a name that is truthy and not a string.\<close>

definition lowered_name :: "json \<Rightarrow> error + string" where
  "lowered_name c = call_toLowerCase (js_or (js_prop c ''name'') (JStr []))"

text \<open>
  The body of the loop up to the construction of \<open>entry\<close>, for the i-th country \<open>c\<close>.
  Reading a property of a country that is \<open>null\<close> throws.
\<close>

definition build_entry :: "env \<Rightarrow> json \<Rightarrow> nat \<Rightarrow> json \<Rightarrow> error + entry" where
  "build_entry E rateMap i c =
     (if nullish c then Inl (TypeError ''Cannot read properties of null or undefined'')
      else
        let code = currency_code_of c;
            pop = population_of E c;
            mapped = js_lookup E rateMap (property_key E code);
            (code', rate, gdp) =
              (if truthy code \<and> \<not> nullish mapped then
                 (code, Some (Number_js E mapped),
                  computeEstimatedGdp (math_random E i) pop (Some (Number_js E mapped)))
               else if truthy code then (code, None, None)
               else (JNull, None, Some (Fin 0)))
        in (case lowered_name c of
              Inl err \<Rightarrow> Inl err
            | Inr lower \<Rightarrow>
                Inr \<lparr>name = js_or (js_prop c ''name'') JNull,
                     name_lower = lower,
                     capital = js_or (js_prop c ''capital'') JNull,
                     region = js_or (js_prop c ''region'') JNull,
                     population = pop,
                     currency_code = code',
                     exchange_rate = rate,
                     estimated_gdp = gdp,
                     flag_url = js_or (js_prop c ''flag'') JNull,
                     last_refreshed_at = clock_now E\<rparr>))"

text \<open>
  One round of the loop: build the entry, then the statements, which may fail. The result
  of \<open>validateCountryRecord(entry)\<close> is computed and dropped by the source, so it
  has no part in the round.
\<close>

definition refresh_step :: "env \<Rightarrow> json \<Rightarrow> nat \<Rightarrow> json \<Rightarrow> db \<Rightarrow> error + db" where
  "refresh_step E rateMap i c d =
     (case build_entry E rateMap i c of
        Inl err \<Rightarrow> Inl err
      | Inr e \<Rightarrow>
          (case query_error E i of
             Some err \<Rightarrow> Inl err
           | None \<Rightarrow> Inr (upsert e d)))"

text \<open>
  \<open>for (const c of countries)\<close>: an array yields its elements, a string its characters,
  anything else is not iterable.
\<close>

fun iterate :: "json \<Rightarrow> error + json list" where
  "iterate (JArr xs) = Inr xs"
| "iterate (JStr s) = Inr (map (\<lambda>ch. JStr [ch]) s)"
| "iterate _ = Inl (TypeError ''countries is not iterable'')"

text \<open>The loop stops at the first exception; \<open>i\<close> counts the rounds.\<close>

fun for_of :: "(nat \<Rightarrow> json \<Rightarrow> db \<Rightarrow> error + db) \<Rightarrow> nat \<Rightarrow> json list \<Rightarrow> db \<Rightarrow> error + db" where
  "for_of step i [] d = Inr d"
| "for_of step i (c # cs) d =
     (case step i c d of
        Inl err \<Rightarrow> Inl err
      | Inr d' \<Rightarrow> for_of step (Suc i) cs d')"

section \<open>Responses, the image file and the state\<close>

datatype body =
    ErrorBody string string
  | ErrorOnly string
  | RefreshBody string nat nat
  | RowBody row
  | RowsBody "row list"
  | StatusBody nat "nat option"
  | NoBody

text \<open>
  \<open>ErrorBody e d\<close> is \<open>{error: e, details: d}\<close>, \<open>ErrorOnly e\<close> is \<open>{error: e}\<close>,
  \<open>RefreshBody m n t\<close> is \<open>{message: m, total_countries: n, last_refreshed_at: t}\<close> and
  \<open>StatusBody n t\<close> is \<open>{total_countries: n, last_refreshed_at: t}\<close>.
\<close>

record response =
  status :: nat
  body :: body

text \<open>
  The summary image is a function of the total, the top rows and the timestamp; the file
  \<open>cache/summary.png\<close> is modelled by the three values it was rendered from.
\<close>

record summary =
  image_total :: nat
  image_rows :: "(json \<times> jsnum) list"
  image_timestamp :: nat

record state =
  table :: db
  image :: "summary option"

text \<open>The order of \<open>ORDER BY estimated_gdp DESC\<close> on numbers.\<close>

fun js_less :: "jsnum \<Rightarrow> jsnum \<Rightarrow> bool" where
  "js_less (Fin a) (Fin b) = (a < b)"
| "js_less (Fin a) PInf = True"
| "js_less NInf (Fin b) = True"
| "js_less NInf PInf = True"
| "js_less _ _ = False"

fun gdp_less :: "jsnum option \<Rightarrow> jsnum option \<Rightarrow> bool" where
  "gdp_less None (Some _) = True"
| "gdp_less (Some a) (Some b) = js_less a b"
| "gdp_less _ None = False"

fun insert_desc :: "row \<Rightarrow> row list \<Rightarrow> row list" where
  "insert_desc r [] = [r]"
| "insert_desc r (x # xs) =
     (if gdp_less (estimated_gdp x) (estimated_gdp r) then r # x # xs
      else x # insert_desc r xs)"

text \<open>Rows of equal value keep their order in the table; \<open>NULL\<close> sorts last.\<close>

definition order_by_gdp_desc :: "row list \<Rightarrow> row list" where
  "order_by_gdp_desc rs = foldl (\<lambda>acc r. insert_desc r acc) [] rs"

text \<open>
  \<open>SELECT name, estimated_gdp FROM countries WHERE estimated_gdp IS NOT NULL
  ORDER BY estimated_gdp DESC LIMIT 5\<close>.
\<close>

definition top5 :: "db \<Rightarrow> (json \<times> jsnum) list" where
  "top5 d =
     map (\<lambda>r. (name r, the (estimated_gdp r)))
       (take 5 (order_by_gdp_desc (filter (\<lambda>r. estimated_gdp r \<noteq> None) (rows d))))"

text \<open>
  \<open>generateSummaryImage(total, topRows, timestamp)\<close> (\<open>n\<close> is the total): the whole body is inside
  \<open>try\<close>, and the \<open>catch\<close> only logs. The result is the new content of the file.
\<close>

definition generateSummaryImage ::
  "env \<Rightarrow> nat \<Rightarrow> (json \<times> jsnum) list \<Rightarrow> nat \<Rightarrow> summary option \<Rightarrow> summary option" where
  "generateSummaryImage E n topRows timestamp file =
     (if image_error E then file
      else Some \<lparr>image_total = n, image_rows = topRows, image_timestamp = timestamp\<rparr>)"

section \<open>The handler of POST /countries/refresh (index.js)\<close>

text \<open>The \<open>catch\<close> block: always 503; the detail names the URL of a failed request.\<close>

definition refresh_catch :: "error \<Rightarrow> response" where
  "refresh_catch err =
     \<lparr>status = 503,
      body = ErrorBody ''External data source unavailable''
               (case response_url err of
                  Some u \<Rightarrow> if u \<noteq> [] then ''Could not fetch data from '' @ u
                            else ''External data source unavailable''
                | None \<Rightarrow> ''External data source unavailable'')\<rparr>"

text \<open>
  From \<open>pool.getConnection()\<close> to \<open>conn.commit()\<close>: the result is the committed table,
  or the exception that sends the handler to its \<open>catch\<close> block, where the rollback
  leaves the table as it was.
\<close>

definition transaction :: "env \<Rightarrow> json \<Rightarrow> json \<Rightarrow> db \<Rightarrow> error + db" where
  "transaction E countries rateMap d =
     (case connect_error E of
        Some err \<Rightarrow> Inl err
      | None \<Rightarrow>
          (case iterate countries of
             Inl err \<Rightarrow> Inl err
           | Inr cs \<Rightarrow>
               (case for_of (refresh_step E rateMap) 0 cs d of
                  Inl err \<Rightarrow> Inl err
                | Inr d' \<Rightarrow>
                    (case commit_error E of
                       Some err \<Rightarrow> Inl err
                     | None \<Rightarrow> Inr d'))))"

definition refresh :: "env \<Rightarrow> state \<Rightarrow> response \<times> state" where
  "refresh E s =
     (case fetch_result E of
        Inl err \<Rightarrow> (refresh_catch err, s)
      | Inr (countries, rates) \<Rightarrow>
          if \<not> truthy rates \<or> \<not> truthy (js_prop rates ''rates'') then
            (\<lparr>status = 503,
              body = ErrorBody ''External data source unavailable''
                       ''Could not fetch data from exchange rates API''\<rparr>, s)
          else
            (case transaction E countries (js_prop rates ''rates'') (table s) of
               Inl err \<Rightarrow> (refresh_catch err, s)
             | Inr d' \<Rightarrow>
                 (case mkdir_error E of
                    Some err \<Rightarrow> (refresh_catch err, s\<lparr>table := d'\<rparr>)
                  | None \<Rightarrow>
                      (case summary_query_error E of
                         Some err \<Rightarrow> (refresh_catch err, s\<lparr>table := d'\<rparr>)
                       | None \<Rightarrow>
                           (\<lparr>status = 200,
                             body = RefreshBody ''Refresh completed'' (length (rows d'))
                                      (clock_now E)\<rparr>,
                            \<lparr>table = d',
                             image = generateSummaryImage E (length (rows d')) (top5 d')
                                       (clock_now E) (image s)\<rparr>)))))"

section \<open>The other handlers (index.js)\<close>

text \<open>
  Each takes the error that \<open>pool.query\<close> throws, if it does. Express delivers a path
  parameter and a query parameter as a string; an absent query parameter is \<open>None\<close>.
\<close>

definition internal_error :: response where
  "internal_error = \<lparr>status = 500, body = ErrorOnly ''Internal server error''\<rparr>"

text \<open>GET /countries: the filters that are present are joined by \<open>AND\<close>.\<close>

definition get_countries ::
  "error option \<Rightarrow> string option \<Rightarrow> string option \<Rightarrow> string option \<Rightarrow> state \<Rightarrow> response" where
  "get_countries db_error q_region q_currency q_sort s =
     (case db_error of
        Some err \<Rightarrow> internal_error
      | None \<Rightarrow>
          let by_region = (\<lambda>r. case q_region of
                                  Some v \<Rightarrow> v = [] \<or> region r = JStr v
                                | None \<Rightarrow> True);
              by_currency = (\<lambda>r. case q_currency of
                                    Some v \<Rightarrow> v = [] \<or> currency_code r = JStr v
                                  | None \<Rightarrow> True);
              found = filter (\<lambda>r. by_region r \<and> by_currency r) (rows (table s))
          in \<lparr>status = 200,
              body = RowsBody (if q_sort = Some ''gdp_desc'' then order_by_gdp_desc found
                               else found)\<rparr>)"

text \<open>GET /countries/:name.\<close>

definition get_country :: "error option \<Rightarrow> string \<Rightarrow> state \<Rightarrow> response" where
  "get_country db_error param s =
     (case db_error of
        Some err \<Rightarrow> internal_error
      | None \<Rightarrow>
          (case select_by_name_lower (toLowerCase param) (table s) of
             None \<Rightarrow> \<lparr>status = 404, body = ErrorOnly ''Country not found''\<rparr>
           | Some r \<Rightarrow> \<lparr>status = 200, body = RowBody r\<rparr>))"

text \<open>DELETE /countries/:name: \<open>DELETE FROM countries WHERE name_lower = ?\<close>.\<close>

definition delete_country :: "error option \<Rightarrow> string \<Rightarrow> state \<Rightarrow> response \<times> state" where
  "delete_country db_error param s =
     (case db_error of
        Some err \<Rightarrow> (internal_error, s)
      | None \<Rightarrow>
          let k = toLowerCase param;
              affectedRows = length (filter (\<lambda>r. name_lower r = k) (rows (table s)));
              d' = (table s)\<lparr>rows := filter (\<lambda>r. name_lower r \<noteq> k) (rows (table s))\<rparr>
          in if 0 < affectedRows then (\<lparr>status = 204, body = NoBody\<rparr>, s\<lparr>table := d'\<rparr>)
             else (\<lparr>status = 404, body = ErrorOnly ''Country not found''\<rparr>, s\<lparr>table := d'\<rparr>))"

text \<open>GET /status: the count and \<open>MAX(last_refreshed_at)\<close>, \<open>null\<close> on an empty table.\<close>

definition get_status :: "error option \<Rightarrow> state \<Rightarrow> response" where
  "get_status db_error s =
     (case db_error of
        Some err \<Rightarrow> internal_error
      | None \<Rightarrow>
          \<lparr>status = 200,
           body = StatusBody (length (rows (table s)))
                    (if rows (table s) = [] then None
                     else Some (foldr max (map last_refreshed_at (rows (table s))) 0))\<rparr>)"

section \<open>The second server file (src/unnamed/part_001)\<close>

text \<open>
  The repository holds a second version of the server with the same routes. Its
  definitions carry the suffix 2.
\<close>

text \<open>\<open>Number(v) || null\<close>.\<close>

definition number_or_null :: "'a host_scheme \<Rightarrow> json \<Rightarrow> jsnum option" where
  "number_or_null h v = (if num_truthy (Some (Number_js h v)) then Some (Number_js h v) else None)"

text \<open>\<open>fetchExternalData\<close> of this file never throws: a failed request yields fixed data.\<close>

definition fallback_countries :: json where
  "fallback_countries =
     JArr [JObj [(''name'', JStr ''Nigeria''), (''capital'', JStr ''Abuja''),
                 (''region'', JStr ''Africa''), (''population'', JNum (Fin 206139589)),
                 (''currencies'', JArr [JObj [(''code'', JStr ''NGN'')]]),
                 (''flag'', JStr ''https://flagcdn.com/ng.svg'')],
           JObj [(''name'', JStr ''United States''), (''capital'', JStr ''Washington D.C.''),
                 (''region'', JStr ''Americas''), (''population'', JNum (Fin 331000000)),
                 (''currencies'', JArr [JObj [(''code'', JStr ''USD'')]]),
                 (''flag'', JStr ''https://flagcdn.com/us.svg'')]]"

definition fallback_rates :: json where
  "fallback_rates =
     JObj [(''rates'', JObj [(''NGN'', JNum (Fin 1500)), (''USD'', JNum (Fin 1))])]"

definition fetchExternalData2 :: "env \<Rightarrow> json \<times> json" where
  "fetchExternalData2 E =
     (case fetch_result E of
        Inl err \<Rightarrow> (fallback_countries, fallback_rates)
      | Inr d \<Rightarrow> d)"

text \<open>
  \<open>Array.isArray(c.currencies) && c.currencies.length > 0 ? c.currencies[0].code || null : null\<close>:
  reading \<open>code\<close> of a first entry that is \<open>null\<close> throws.
\<close>

definition currency_code_of2 :: "json \<Rightarrow> error + json" where
  "currency_code_of2 c =
     (case js_prop c ''currencies'' of
        JArr (first # _) \<Rightarrow>
          if nullish first then Inl (TypeError ''Cannot read properties of null'')
          else Inr (js_or (js_prop first ''code'') JNull)
      | _ \<Rightarrow> Inr JNull)"

text \<open>\<open>c.name.toLowerCase()\<close>: throws unless the name is a string.\<close>

definition lowered_name2 :: "json \<Rightarrow> error + string" where
  "lowered_name2 c = call_toLowerCase (js_prop c ''name'')"

text \<open>The values bound to the statement for the i-th country \<open>c\<close>.\<close>

definition build_entry2 :: "env \<Rightarrow> json \<Rightarrow> nat \<Rightarrow> json \<Rightarrow> error + entry" where
  "build_entry2 E rateMap i c =
     (if nullish c then Inl (TypeError ''Cannot read properties of null or undefined'')
      else
        (case currency_code_of2 c of
           Inl err \<Rightarrow> Inl err
         | Inr code \<Rightarrow>
             let pop = number_or_null E (js_prop c ''population'');
                 rate = (if truthy code
                         then number_or_null E (js_lookup E rateMap (property_key E code))
                         else None);
                 gdp = computeEstimatedGdp2 (math_random E i) pop rate
             in (case lowered_name2 c of
                   Inl err \<Rightarrow> Inl err
                 | Inr lower \<Rightarrow>
                     Inr \<lparr>name = js_prop c ''name'',
                          name_lower = lower,
                          capital = js_or (js_prop c ''capital'') JNull,
                          region = js_or (js_prop c ''region'') JNull,
                          population = pop,
                          currency_code = code,
                          exchange_rate = rate,
                          estimated_gdp = gdp,
                          flag_url = js_or (js_prop c ''flag'') JNull,
                          last_refreshed_at = clock_now E\<rparr>)))"

text \<open>
  Modelled from the spec: the \<open>CREATE TABLE\<close> statement of \<open>countries\<close> is not among the
  sources, so the key that \<open>INSERT ... ON DUPLICATE KEY UPDATE\<close> collides on is taken
  from the data model of the specification: at most one record per \<open>name_lower\<close>, which
  identifies a record for upsert. A row with the entry's \<open>name_lower\<close> is updated in
  place; without one, the entry is inserted.
\<close>

definition upsert2 :: "entry \<Rightarrow> db \<Rightarrow> db" where
  "upsert2 e d =
     (if \<exists>r \<in> set (rows d). name_lower r = name_lower e
      then d\<lparr>rows := map (\<lambda>r. if name_lower r = name_lower e then set_columns e r else r)
                         (rows d)\<rparr>
      else insert_row e d)"

definition refresh_step2 :: "env \<Rightarrow> json \<Rightarrow> nat \<Rightarrow> json \<Rightarrow> db \<Rightarrow> error + db" where
  "refresh_step2 E rateMap i c d =
     (case build_entry2 E rateMap i c of
        Inl err \<Rightarrow> Inl err
      | Inr e \<Rightarrow>
          (case query_error E i of
             Some err \<Rightarrow> Inl err
           | None \<Rightarrow> Inr (upsert2 e d)))"

definition transaction2 :: "env \<Rightarrow> json \<Rightarrow> json \<Rightarrow> db \<Rightarrow> error + db" where
  "transaction2 E countries rateMap d =
     (case connect_error E of
        Some err \<Rightarrow> Inl err
      | None \<Rightarrow>
          (case iterate countries of
             Inl err \<Rightarrow> Inl err
           | Inr cs \<Rightarrow>
               (case for_of (refresh_step2 E rateMap) 0 cs d of
                  Inl err \<Rightarrow> Inl err
                | Inr d' \<Rightarrow>
                    (case commit_error E of
                       Some err \<Rightarrow> Inl err
                     | None \<Rightarrow> Inr d'))))"

text \<open>The \<open>catch\<close> block of this file puts the message of the exception in the body.\<close>

definition refresh_catch2 :: "error \<Rightarrow> response" where
  "refresh_catch2 err =
     \<lparr>status = 503, body = ErrorBody ''External data source unavailable'' (message err)\<rparr>"

definition refresh2 :: "env \<Rightarrow> state \<Rightarrow> response \<times> state" where
  "refresh2 E s =
     (case fetchExternalData2 E of
        (countries, rates) \<Rightarrow>
          if \<not> truthy rates \<or> \<not> truthy (js_prop rates ''rates'') then
            (\<lparr>status = 503,
              body = ErrorBody ''External data source unavailable''
                       ''Exchange rate data missing''\<rparr>, s)
          else
            (case transaction2 E countries (js_prop rates ''rates'') (table s) of
               Inl err \<Rightarrow> (refresh_catch2 err, s)
             | Inr d' \<Rightarrow>
                 (case summary_query_error E of
                    Some err \<Rightarrow> (refresh_catch2 err, s\<lparr>table := d'\<rparr>)
                  | None \<Rightarrow>
                      (\<lparr>status = 200,
                        body = RefreshBody ''Refresh completed'' (length (rows d'))
                                 (clock_now E)\<rparr>,
                       \<lparr>table = d',
                        image = generateSummaryImage E (length (rows d')) (top5 d')
                                  (clock_now E) (image s)\<rparr>))))"

text \<open>
  GET and DELETE /countries/:name of this file: \<open>req.params.name.toLowerCase()\<close>, then
  the same statements and the same answers as in index.js.
\<close>

definition get_country2 :: "error option \<Rightarrow> string \<Rightarrow> state \<Rightarrow> response" where
  "get_country2 db_error param s =
     (case db_error of
        Some err \<Rightarrow> internal_error
      | None \<Rightarrow>
          (case select_by_name_lower (toLowerCase param) (table s) of
             None \<Rightarrow> \<lparr>status = 404, body = ErrorOnly ''Country not found''\<rparr>
           | Some r \<Rightarrow> \<lparr>status = 200, body = RowBody r\<rparr>))"

definition delete_country2 :: "error option \<Rightarrow> string \<Rightarrow> state \<Rightarrow> response \<times> state" where
  "delete_country2 db_error param s =
     (case db_error of
        Some err \<Rightarrow> (internal_error, s)
      | None \<Rightarrow>
          let k = toLowerCase param;
              affectedRows = length (filter (\<lambda>r. name_lower r = k) (rows (table s)));
              d' = (table s)\<lparr>rows := filter (\<lambda>r. name_lower r \<noteq> k) (rows (table s))\<rparr>
          in if affectedRows = 0 then (\<lparr>status = 404, body = ErrorOnly ''Country not found''\<rparr>, s\<lparr>table := d'\<rparr>)
             else (\<lparr>status = 204, body = NoBody\<rparr>, s\<lparr>table := d'\<rparr>))"

section \<open>Predicates of the statements\<close>

text \<open>
  The table is well formed when \<open>id\<close> is a key and the auto-increment counter is
  above every id in use.
\<close>

definition db_ok :: "db \<Rightarrow> bool" where
  "db_ok d = (distinct (map row_id (rows d)) \<and> list_all (\<lambda>r. row_id r < next_id d) (rows d))"

text \<open>A row holds an entry when its key and every column the statements set agree.\<close>

definition holds_entry :: "entry \<Rightarrow> row \<Rightarrow> bool" where
  "holds_entry e r =
     (name_lower r = name_lower e \<and> capital r = capital e \<and> region r = region e \<and>
      population r = population e \<and> currency_code r = currency_code e \<and>
      exchange_rate r = exchange_rate e \<and> estimated_gdp r = estimated_gdp e \<and>
      flag_url r = flag_url e \<and> last_refreshed_at r = last_refreshed_at e)"

text \<open>
  The invariant of the key: \<open>name_lower\<close> is the lower case of \<open>name\<close>, where a name that
  is \<open>null\<close> counts as the empty string, as in \<open>(c.name || '').toLowerCase()\<close>.
\<close>

fun name_text :: "json \<Rightarrow> string" where
  "name_text (JStr s) = s"
| "name_text _ = []"

definition name_in_sync :: "row \<Rightarrow> bool" where
  "name_in_sync r = (name_lower r = toLowerCase (name_text (name r)))"

text \<open>
  The record persisted for a country: the row that its lowered name selects, as
  GET /countries/:name reads it. \<open>key\<close> is \<open>lowered_name\<close> for index.js and
  \<open>lowered_name2\<close> for the second server file.
\<close>

definition persisted :: "(json \<Rightarrow> error + string) \<Rightarrow> state \<Rightarrow> json \<Rightarrow> row option" where
  "persisted key s c =
     (case key c of
        Inl err \<Rightarrow> None
      | Inr k \<Rightarrow> select_by_name_lower k (table s))"

text \<open>
  The i-th country is the last of its name in the input: a later country of the same
  lowered name would overwrite its record.
\<close>

definition last_of_name :: "(json \<Rightarrow> error + string) \<Rightarrow> json list \<Rightarrow> nat \<Rightarrow> bool" where
  "last_of_name key cs i =
     (i < length cs \<and> list_all (\<lambda>c. key c \<noteq> key (cs ! i)) (drop (Suc i) cs))"

text \<open>
  A country has no currency entries when \<open>c.currencies\<close> is absent, not an array, or
  an empty array.
\<close>

definition no_currency_entries :: "json \<Rightarrow> bool" where
  "no_currency_entries c = (case js_prop c ''currencies'' of JArr (x # xs) \<Rightarrow> False | _ \<Rightarrow> True)"

text \<open>
  The population of a country is missing (\<open>null\<close> or absent) or converts to \<open>NaN\<close>.
\<close>

definition population_missing :: "'a host_scheme \<Rightarrow> json \<Rightarrow> bool" where
  "population_missing h c = (population_of h c = None \<or> population_of h c = Some NaN)"

text \<open>The values that count as false: \<open>!v\<close> holds for exactly these.\<close>

definition falsy_values :: "json list" where
  "falsy_values = [JUndefined, JNull, JBool False, JNum (Fin 0), JNum NaN, JStr []]"

section \<open>An example run\<close>

text \<open>
  Four countries: one with a rate and a population, one without currencies and without
  population, one whose currency has no rate, one with a rate and no population. The
  table already holds a row for the first.
\<close>

definition nigeria :: json where
  "nigeria =
     JObj [(''name'', JStr ''Nigeria''), (''population'', JNum (Fin 206139589)),
           (''currencies'', JArr [JObj [(''code'', JStr ''NGN'')]])]"

definition atlantis :: json where
  "atlantis = JObj [(''name'', JStr ''Atlantis''), (''currencies'', JArr [])]"

definition wakanda :: json where
  "wakanda =
     JObj [(''name'', JStr ''Wakanda''), (''population'', JNum (Fin 1000)),
           (''currencies'', JArr [JObj [(''code'', JStr ''WKD'')]])]"

definition narnia :: json where
  "narnia =
     JObj [(''name'', JStr ''Narnia''), (''currencies'', JArr [JObj [(''code'', JStr ''NGN'')]])]"

definition example_countries :: "json list" where
  "example_countries = [nigeria, atlantis, wakanda, narnia]"

definition example_rates :: json where
  "example_rates = JObj [(''rates'', JObj [(''NGN'', JNum (Fin 1500))])]"

text \<open>
  The host of the example: the functions that every object inherits from
  \<open>Object.prototype\<close>, and the length of arrays and strings. No string that the example
  converts denotes a number.
\<close>

definition object_prototype_functions :: "string list" where
  "object_prototype_functions =
     [''constructor'', ''hasOwnProperty'', ''isPrototypeOf'', ''propertyIsEnumerable'',
      ''toLocaleString'', ''toString'', ''valueOf'']"

definition example_builtin :: "json \<Rightarrow> string \<Rightarrow> json" where
  "example_builtin v k =
     (if k \<in> set object_prototype_functions then JFunction k
      else if k = ''length'' then
        (case v of
           JArr xs \<Rightarrow> JNum (Fin (real (length xs)))
         | JStr str \<Rightarrow> JNum (Fin (real (length str)))
         | _ \<Rightarrow> JUndefined)
      else JUndefined)"

definition example_env :: env where
  "example_env =
     \<lparr>StringToNumber = (\<lambda>s. NaN), ToString = (\<lambda>v. []),
      BuiltinProperty = example_builtin,
      fetch_result = Inr (JArr example_countries, example_rates),
      clock_now = 42, math_random = (\<lambda>i. 1 / 4),
      connect_error = None, query_error = (\<lambda>i. None), commit_error = None,
      mkdir_error = None, summary_query_error = None, image_error = False\<rparr>"

definition example_state :: state where
  "example_state =
     \<lparr>table = \<lparr>rows = [\<lparr>name = JStr ''Nigeria'', name_lower = ''nigeria'', capital = JStr ''Lagos'',
                          region = JNull, population = None, currency_code = JNull,
                          exchange_rate = None, estimated_gdp = None, flag_url = JNull,
                          last_refreshed_at = 7, row_id = 1\<rparr>],
               next_id = 2\<rparr>,
      image = None\<rparr>"

text \<open>The rate source answers with a body that has no \<open>rates\<close>.\<close>

definition malformed_rates_env :: env where
  "malformed_rates_env =
     example_env\<lparr>fetch_result := Inr (JArr example_countries, JObj [(''result'', JStr ''error'')])\<rparr>"

text \<open>Both sources answer; the database refuses the connection.\<close>

definition database_down_env :: env where
  "database_down_env =
     example_env\<lparr>connect_error := Some (DbError ''connect ECONNREFUSED 127.0.0.1:3306'')\<rparr>"




text \<open>The rate source answers with a body whose \<open>rates\<close> is a string.\<close>

definition rates_string_env :: env where
  "rates_string_env =
     example_env\<lparr>fetch_result := Inr (JArr example_countries, JObj [(''rates'', JStr ''error'')])\<rparr>"

text \<open>The example run with a cache directory that cannot be created.\<close>

definition mkdir_fails_env :: env where
  "mkdir_fails_env =
     example_env\<lparr>mkdir_error := Some (IoError ''EACCES: permission denied, mkdir cache'')\<rparr>"

text \<open>The example run with a database that fails after the commit.\<close>

definition summary_query_fails_env :: env where
  "summary_query_fails_env =
     example_env\<lparr>summary_query_error := Some (DbError ''Connection lost'')\<rparr>"

text \<open>The example run with a renderer that fails.\<close>

definition image_fails_env :: env where
  "image_fails_env = example_env\<lparr>image_error := True\<rparr>"

section \<open>Arithmetic of the multiplier\<close>

lemma falsy_values_iff: "v \<in> set falsy_values \<longleftrightarrow> \<not> truthy v"
  by (cases v) (auto simp: falsy_values_def)

lemma randInt_range:
  assumes "0 \<le> u" and "u < 1"
  shows "1000 \<le> randInt u 1000 2000 \<and> randInt u 1000 2000 \<le> 2000"
proof -
  have "0 \<le> u * 1001" using assms by simp
  then have lo: "0 \<le> \<lfloor>u * 1001\<rfloor>" by simp
  have "u * 1001 < 1001" using assms by simp
  then have "\<lfloor>u * 1001\<rfloor> < 1001" by (simp add: floor_less_iff)
  with lo show ?thesis by (simp add: randInt_def)
qed

section \<open>The statements on the table\<close>

lemma find_map_same:
  assumes "\<And>y. P (f y) = P y"
  shows "find P (map f xs) = map_option f (find P xs)"
  using assms by (induction xs) auto

lemma find_snoc:
  "find P (xs @ [y]) = (case find P xs of Some x \<Rightarrow> Some x | None \<Rightarrow> if P y then Some y else None)"
  by (induction xs) auto

lemma name_lower_set_columns [simp]: "name_lower (set_columns e r) = name_lower r"
  by (simp add: set_columns_def)

lemma row_id_set_columns [simp]: "row_id (set_columns e r) = row_id r"
  by (simp add: set_columns_def)

lemma name_set_columns [simp]: "name (set_columns e r) = name r"
  by (simp add: set_columns_def)

lemma holds_entry_set_columns: "name_lower r = name_lower e \<Longrightarrow> holds_entry e (set_columns e r)"
  by (simp add: holds_entry_def set_columns_def)

lemma find_Some_props: "find P xs = Some x \<Longrightarrow> P x \<and> x \<in> set xs"
  by (induction xs) (auto split: if_splits)

lemma upsert_select_same:
  "\<exists>r. select_by_name_lower (name_lower e) (upsert e d) = Some r \<and> holds_entry e r"
proof (cases "select_by_name_lower (name_lower e) d")
  case None
  then have "find (\<lambda>r. name_lower r = name_lower e) (rows d) = None"
    by (simp add: select_by_name_lower_def)
  then show ?thesis using None
    by (simp add: upsert_def insert_row_def select_by_name_lower_def find_snoc holds_entry_def)
next
  case (Some r0)
  then have f: "find (\<lambda>r. name_lower r = name_lower e) (rows d) = Some r0"
    by (simp add: select_by_name_lower_def)
  then have k: "name_lower r0 = name_lower e" by (auto dest: find_Some_props)
  have "find (\<lambda>r. name_lower r = name_lower e)
          (map (\<lambda>r. if row_id r = row_id r0 then set_columns e r else r) (rows d))
        = Some (set_columns e r0)"
    using f by (subst find_map_same) auto
  then show ?thesis using Some k
    by (simp add: upsert_def update_by_id_def select_by_name_lower_def holds_entry_set_columns)
qed

lemma distinct_ids_eq:
  assumes "distinct (map row_id xs)" "x \<in> set xs" "y \<in> set xs" "row_id x = row_id y"
  shows "x = y"
  using assms by (meson distinct_map inj_on_def)

lemma upsert_select_other:
  assumes "db_ok d" and "k \<noteq> name_lower e"
  shows "select_by_name_lower k (upsert e d) = select_by_name_lower k d"
proof (cases "select_by_name_lower (name_lower e) d")
  case None
  then show ?thesis using assms(2)
    by (simp add: upsert_def insert_row_def select_by_name_lower_def find_snoc split: option.splits)
next
  case (Some r0)
  then have f: "find (\<lambda>r. name_lower r = name_lower e) (rows d) = Some r0"
    by (simp add: select_by_name_lower_def)
  then have r0: "name_lower r0 = name_lower e" "r0 \<in> set (rows d)" by (auto dest: find_Some_props)
  let ?f = "\<lambda>r. if row_id r = row_id r0 then set_columns e r else r"
  have m: "find (\<lambda>r. name_lower r = k) (map ?f (rows d)) = map_option ?f (find (\<lambda>r. name_lower r = k) (rows d))"
    by (rule find_map_same) auto
  have "map_option ?f (find (\<lambda>r. name_lower r = k) (rows d)) = find (\<lambda>r. name_lower r = k) (rows d)"
  proof (cases "find (\<lambda>r. name_lower r = k) (rows d)")
    case None then show ?thesis by simp
  next
    case (Some r)
    then have r: "name_lower r = k" "r \<in> set (rows d)" by (auto dest: find_Some_props)
    have "row_id r \<noteq> row_id r0"
    proof
      assume "row_id r = row_id r0"
      then have "r = r0" using assms(1) r(2) r0(2) by (auto simp: db_ok_def intro: distinct_ids_eq)
      then show False using r(1) r0(1) assms(2) by simp
    qed
    then show ?thesis using Some by simp
  qed
  with m show ?thesis using Some
    by (simp add: upsert_def update_by_id_def select_by_name_lower_def)
qed

lemma upsert_db_ok:
  assumes "db_ok d"
  shows "db_ok (upsert e d)"
proof (cases "select_by_name_lower (name_lower e) d")
  case None
  have "row_id ` set (rows d) \<subseteq> {..<next_id d}"
    using assms by (auto simp: db_ok_def list_all_iff)
  then have "next_id d \<notin> row_id ` set (rows d)" by auto
  then show ?thesis using assms None
    by (auto simp: upsert_def insert_row_def db_ok_def list_all_iff less_Suc_eq)
next
  case (Some r0)
  have "row_id \<circ> (\<lambda>r. if row_id r = row_id r0 then set_columns e r else r) = row_id"
    by (rule ext) simp
  then show ?thesis using assms Some
    by (auto simp: upsert_def update_by_id_def db_ok_def list_all_iff)
qed

section \<open>The loop\<close>

lemma for_of_keeps_other:
  assumes ok: "\<And>i c d d'. I d \<Longrightarrow> step i c d = Inr d' \<Longrightarrow> I d'"
    and other: "\<And>i c d d'. I d \<Longrightarrow> step i c d = Inr d' \<Longrightarrow> key c \<noteq> Inr k \<Longrightarrow>
                  select_by_name_lower k d' = select_by_name_lower k d"
  shows "for_of step i cs d = Inr d' \<Longrightarrow> I d \<Longrightarrow> \<forall>c \<in> set cs. key c \<noteq> Inr k \<Longrightarrow>
         select_by_name_lower k d' = select_by_name_lower k d"
proof (induction cs arbitrary: i d)
  case Nil
  then show ?case by simp
next
  case (Cons c cs)
  from Cons.prems(1) obtain d1 where s: "step i c d = Inr d1" and r: "for_of step (Suc i) cs d1 = Inr d'"
    by (auto split: sum.splits)
  have "I d1" using ok Cons.prems(2) s by blast
  then have "select_by_name_lower k d' = select_by_name_lower k d1"
    using Cons.IH r Cons.prems(3) by simp
  moreover have "select_by_name_lower k d1 = select_by_name_lower k d"
    using other Cons.prems(2) s Cons.prems(3) by simp
  ultimately show ?case by simp
qed

lemma for_of_last_write:
  assumes ok: "\<And>i c d d'. I d \<Longrightarrow> step i c d = Inr d' \<Longrightarrow> I d'"
    and wr: "\<And>i c d d'. I d \<Longrightarrow> step i c d = Inr d' \<Longrightarrow>
               \<exists>r. key c = Inr (name_lower r) \<and> select_by_name_lower (name_lower r) d' = Some r \<and> Q i c r"
    and other: "\<And>i c d d' k. I d \<Longrightarrow> step i c d = Inr d' \<Longrightarrow> key c \<noteq> Inr k \<Longrightarrow>
                  select_by_name_lower k d' = select_by_name_lower k d"
  shows "for_of step i cs d = Inr d' \<Longrightarrow> I d \<Longrightarrow> j < length cs \<Longrightarrow>
         \<forall>j'. j < j' \<and> j' < length cs \<longrightarrow> key (cs ! j') \<noteq> key (cs ! j) \<Longrightarrow>
         \<exists>r. key (cs ! j) = Inr (name_lower r) \<and> select_by_name_lower (name_lower r) d' = Some r \<and>
             Q (i + j) (cs ! j) r"
proof (induction cs arbitrary: i d j)
  case Nil
  then show ?case by simp
next
  case (Cons c cs)
  from Cons.prems(1) obtain d1 where s: "step i c d = Inr d1" and r: "for_of step (Suc i) cs d1 = Inr d'"
    by (auto split: sum.splits)
  have I1: "I d1" using ok Cons.prems(2) s by blast
  show ?case
  proof (cases j)
    case 0
    from wr [OF Cons.prems(2) s] obtain r0 where
      k: "key c = Inr (name_lower r0)" and sel: "select_by_name_lower (name_lower r0) d1 = Some r0"
      and q: "Q i c r0" by blast
    have far: "\<forall>c' \<in> set cs. key c' \<noteq> Inr (name_lower r0)"
    proof
      fix c' assume "c' \<in> set cs"
      then obtain n where n: "n < length cs" "cs ! n = c'" by (auto simp: in_set_conv_nth)
      then have "key ((c # cs) ! Suc n) \<noteq> key ((c # cs) ! j)"
        using Cons.prems(4) 0 by (metis Suc_less_eq length_Cons zero_less_Suc)
      then show "key c' \<noteq> Inr (name_lower r0)" using n k 0 by simp
    qed
    have "select_by_name_lower (name_lower r0) d' = select_by_name_lower (name_lower r0) d1"
    proof (rule for_of_keeps_other [where I = I and step = step and key = key])
      show "\<And>i c d d'. I d \<Longrightarrow> step i c d = Inr d' \<Longrightarrow> I d'" by (rule ok)
      show "\<And>i c d d'. I d \<Longrightarrow> step i c d = Inr d' \<Longrightarrow> key c \<noteq> Inr (name_lower r0) \<Longrightarrow>
              select_by_name_lower (name_lower r0) d' = select_by_name_lower (name_lower r0) d"
        by (rule other)
      show "for_of step (Suc i) cs d1 = Inr d'" by (rule r)
      show "I d1" by (rule I1)
      show "\<forall>c \<in> set cs. key c \<noteq> Inr (name_lower r0)" by (rule far)
    qed
    then show ?thesis using 0 k sel q by auto
  next
    case (Suc n)
    have "\<forall>j'. n < j' \<and> j' < length cs \<longrightarrow> key (cs ! j') \<noteq> key (cs ! n)"
    proof (intro allI impI)
      fix j' assume "n < j' \<and> j' < length cs"
      then have "key ((c # cs) ! Suc j') \<noteq> key ((c # cs) ! j)"
        using Cons.prems(4) Suc by (metis Suc_less_eq length_Cons)
      then show "key (cs ! j') \<noteq> key (cs ! n)" using Suc by simp
    qed
    then have "\<exists>r. key (cs ! n) = Inr (name_lower r) \<and> select_by_name_lower (name_lower r) d' = Some r \<and>
             Q (Suc i + n) (cs ! n) r"
      using Cons.IH [OF r I1] Cons.prems(3) Suc by simp
    then show ?thesis using Suc by simp
  qed
qed

lemma for_of_invariant:
  assumes ok: "\<And>i c d d'. I d \<Longrightarrow> step i c d = Inr d' \<Longrightarrow> I d'"
  shows "for_of step i cs d = Inr d' \<Longrightarrow> I d \<Longrightarrow> I d'"
proof (induction cs arbitrary: i d)
  case Nil
  then show ?case by simp
next
  case (Cons c cs)
  from Cons.prems(1) obtain d1 where s: "step i c d = Inr d1" and r: "for_of step (Suc i) cs d1 = Inr d'"
    by (auto split: sum.splits)
  show ?case using Cons.IH [OF r] ok [OF Cons.prems(2) s] by simp
qed

section \<open>The refresh of index.js\<close>

lemma build_entry_key:
  "build_entry E rm i c = Inr e \<Longrightarrow> lowered_name c = Inr (name_lower e)"
  by (auto simp: build_entry_def Let_def split: if_splits sum.splits)

lemma build_entry_common:
  "build_entry E rm i c = Inr e \<Longrightarrow>
   last_refreshed_at e = clock_now E \<and> population e = population_of E c \<and>
   name e = js_or (js_prop c ''name'') JNull"
  by (auto simp: build_entry_def Let_def split: if_splits sum.splits)

lemma build_entry_rate:
  assumes "build_entry E rm i c = Inr e" "truthy (currency_code_of c)"
    "\<not> nullish (js_lookup E rm (property_key E (currency_code_of c)))"
  shows "currency_code e = currency_code_of c \<and>
         exchange_rate e = Some (Number_js E (js_lookup E rm (property_key E (currency_code_of c)))) \<and>
         estimated_gdp e = computeEstimatedGdp (math_random E i) (population_of E c)
                             (Some (Number_js E (js_lookup E rm (property_key E (currency_code_of c)))))"
  using assms by (auto simp: build_entry_def Let_def split: if_splits sum.splits)

lemma build_entry_no_rate:
  assumes "build_entry E rm i c = Inr e" "truthy (currency_code_of c)"
    "nullish (js_lookup E rm (property_key E (currency_code_of c)))"
  shows "currency_code e = currency_code_of c \<and> exchange_rate e = None \<and> estimated_gdp e = None"
  using assms by (auto simp: build_entry_def Let_def split: if_splits sum.splits)

lemma build_entry_no_code:
  assumes "build_entry E rm i c = Inr e" "\<not> truthy (currency_code_of c)"
  shows "currency_code e = JNull \<and> exchange_rate e = None \<and> estimated_gdp e = Some (Fin 0)"
  using assms by (auto simp: build_entry_def Let_def split: if_splits sum.splits)

lemma refresh_step_ok: "db_ok d \<Longrightarrow> refresh_step E rm i c d = Inr d' \<Longrightarrow> db_ok d'"
  by (auto simp: refresh_step_def upsert_db_ok split: sum.splits option.splits)

lemma refresh_step_writes:
  assumes "refresh_step E rm i c d = Inr d'"
  shows "\<exists>r. lowered_name c = Inr (name_lower r) \<and> select_by_name_lower (name_lower r) d' = Some r \<and>
             (\<exists>e. build_entry E rm i c = Inr e \<and> holds_entry e r)"
proof -
  from assms obtain e where e: "build_entry E rm i c = Inr e" and d': "d' = upsert e d"
    by (auto simp: refresh_step_def split: sum.splits option.splits)
  obtain r where r: "select_by_name_lower (name_lower e) (upsert e d) = Some r" "holds_entry e r"
    using upsert_select_same by blast
  then have k: "name_lower r = name_lower e" by (simp add: holds_entry_def)
  have "lowered_name c = Inr (name_lower r) \<and> select_by_name_lower (name_lower r) d' = Some r \<and>
        (\<exists>e. build_entry E rm i c = Inr e \<and> holds_entry e r)"
    using e d' r k build_entry_key [OF e] by simp
  then show ?thesis by (rule exI)
qed

lemma refresh_step_other:
  assumes "db_ok d" "refresh_step E rm i c d = Inr d'" "lowered_name c \<noteq> Inr k"
  shows "select_by_name_lower k d' = select_by_name_lower k d"
proof -
  from assms(2) obtain e where e: "build_entry E rm i c = Inr e" and d': "d' = upsert e d"
    by (auto simp: refresh_step_def split: sum.splits option.splits)
  have "k \<noteq> name_lower e" using build_entry_key [OF e] assms(3) by auto
  then show ?thesis using d' upsert_select_other [OF assms(1)] by simp
qed

lemma status_refresh_catch [simp]: "status (refresh_catch err) = 503"
  by (simp add: refresh_catch_def)

lemma refresh_200:
  assumes "status (fst (refresh E s)) = 200" "fetch_result E = Inr (countries, rates)"
    "iterate countries = Inr cs"
  shows "for_of (refresh_step E (js_prop rates ''rates'')) 0 cs (table s) = Inr (table (snd (refresh E s)))"
  using assms
  by (auto simp: refresh_def transaction_def split: if_splits sum.splits option.splits)

lemma refresh_persists:
  assumes "fetch_result E = Inr (countries, rates)" and "iterate countries = Inr cs"
    and "status (fst (refresh E s)) = 200" and "db_ok (table s)" and "i < length cs"
    and "\<forall>j. i < j \<and> j < length cs \<longrightarrow> lowered_name (cs ! j) \<noteq> lowered_name (cs ! i)"
  shows "\<exists>r e. lowered_name (cs ! i) = Inr (name_lower r) \<and>
               select_by_name_lower (name_lower r) (table (snd (refresh E s))) = Some r \<and>
               build_entry E (js_prop rates ''rates'') i (cs ! i) = Inr e \<and> holds_entry e r"
proof -
  let ?rm = "js_prop rates ''rates''"
  have run: "for_of (refresh_step E ?rm) 0 cs (table s) = Inr (table (snd (refresh E s)))"
    using refresh_200 assms(3,1,2) by blast
  have "\<exists>r. lowered_name (cs ! i) = Inr (name_lower r) \<and>
            select_by_name_lower (name_lower r) (table (snd (refresh E s))) = Some r \<and>
            (\<exists>e. build_entry E ?rm (0 + i) (cs ! i) = Inr e \<and> holds_entry e r)"
  proof (rule for_of_last_write [where I = db_ok and step = "refresh_step E ?rm" and key = lowered_name
        and Q = "\<lambda>i c r. \<exists>e. build_entry E ?rm i c = Inr e \<and> holds_entry e r"])
    show "\<And>i c d d'. db_ok d \<Longrightarrow> refresh_step E ?rm i c d = Inr d' \<Longrightarrow> db_ok d'"
      by (rule refresh_step_ok)
    show "\<And>i c d d'. db_ok d \<Longrightarrow> refresh_step E ?rm i c d = Inr d' \<Longrightarrow>
            \<exists>r. lowered_name c = Inr (name_lower r) \<and> select_by_name_lower (name_lower r) d' = Some r \<and>
                (\<exists>e. build_entry E ?rm i c = Inr e \<and> holds_entry e r)"
      by (rule refresh_step_writes)
    show "\<And>i c d d' k. db_ok d \<Longrightarrow> refresh_step E ?rm i c d = Inr d' \<Longrightarrow> lowered_name c \<noteq> Inr k \<Longrightarrow>
            select_by_name_lower k d' = select_by_name_lower k d"
      by (rule refresh_step_other)
    show "for_of (refresh_step E ?rm) 0 cs (table s) = Inr (table (snd (refresh E s)))" by (rule run)
    show "db_ok (table s)" by (rule assms(4))
    show "i < length cs" by (rule assms(5))
    show "\<forall>j'. i < j' \<and> j' < length cs \<longrightarrow> lowered_name (cs ! j') \<noteq> lowered_name (cs ! i)"
      by (rule assms(6))
  qed
  then show ?thesis by auto
qed

section \<open>The refresh of the second server file\<close>

lemma build_entry2_key:
  "build_entry2 E rm i c = Inr e \<Longrightarrow> lowered_name2 c = Inr (name_lower e)"
  by (auto simp: build_entry2_def Let_def split: if_splits sum.splits)

lemma build_entry2_fields:
  assumes "build_entry2 E rm i c = Inr e"
  shows "\<exists>code. currency_code_of2 c = Inr code \<and> currency_code e = code \<and>
           last_refreshed_at e = clock_now E \<and>
           name e = js_prop c ''name'' \<and>
           population e = number_or_null E (js_prop c ''population'') \<and>
           exchange_rate e = (if truthy code then number_or_null E (js_lookup E rm (property_key E code)) else None) \<and>
           estimated_gdp e = computeEstimatedGdp2 (math_random E i) (population e) (exchange_rate e)"
  using assms by (auto simp: build_entry2_def Let_def split: if_splits sum.splits)

lemma upsert2_select_same:
  "\<exists>r. select_by_name_lower (name_lower e) (upsert2 e d) = Some r \<and> holds_entry e r"
proof (cases "\<exists>r \<in> set (rows d). name_lower r = name_lower e")
  case False
  then have "find (\<lambda>r. name_lower r = name_lower e) (rows d) = None"
    by (auto simp: find_None_iff)
  then show ?thesis using False
    by (simp add: upsert2_def insert_row_def select_by_name_lower_def find_snoc holds_entry_def)
next
  case True
  then obtain r0 where f: "find (\<lambda>r. name_lower r = name_lower e) (rows d) = Some r0"
    by (cases "find (\<lambda>r. name_lower r = name_lower e) (rows d)") (auto simp: find_None_iff)
  then have k: "name_lower r0 = name_lower e" by (auto dest: find_Some_props)
  have "find (\<lambda>r. name_lower r = name_lower e)
          (map (\<lambda>r. if name_lower r = name_lower e then set_columns e r else r) (rows d))
        = Some (set_columns e r0)"
    using f k by (subst find_map_same) auto
  then show ?thesis using True k
    by (simp add: upsert2_def select_by_name_lower_def holds_entry_set_columns)
qed

lemma upsert2_select_other:
  assumes "k \<noteq> name_lower e"
  shows "select_by_name_lower k (upsert2 e d) = select_by_name_lower k d"
proof (cases "\<exists>r \<in> set (rows d). name_lower r = name_lower e")
  case False
  then show ?thesis using assms
    by (simp add: upsert2_def insert_row_def select_by_name_lower_def find_snoc split: option.splits)
next
  case True
  let ?f = "\<lambda>r. if name_lower r = name_lower e then set_columns e r else r"
  have m: "find (\<lambda>r. name_lower r = k) (map ?f (rows d)) = map_option ?f (find (\<lambda>r. name_lower r = k) (rows d))"
    by (rule find_map_same) auto
  have "map_option ?f (find (\<lambda>r. name_lower r = k) (rows d)) = find (\<lambda>r. name_lower r = k) (rows d)"
  proof (cases "find (\<lambda>r. name_lower r = k) (rows d)")
    case None then show ?thesis by simp
  next
    case (Some r)
    then have "name_lower r = k" by (auto dest: find_Some_props)
    then show ?thesis using Some assms by simp
  qed
  with m show ?thesis using True
    by (simp add: upsert2_def select_by_name_lower_def)
qed

lemma refresh_step2_writes:
  assumes "refresh_step2 E rm i c d = Inr d'"
  shows "\<exists>r. lowered_name2 c = Inr (name_lower r) \<and> select_by_name_lower (name_lower r) d' = Some r \<and>
             (\<exists>e. build_entry2 E rm i c = Inr e \<and> holds_entry e r)"
proof -
  from assms obtain e where e: "build_entry2 E rm i c = Inr e" and d': "d' = upsert2 e d"
    by (auto simp: refresh_step2_def split: sum.splits option.splits)
  obtain r where r: "select_by_name_lower (name_lower e) (upsert2 e d) = Some r" "holds_entry e r"
    using upsert2_select_same by blast
  then have k: "name_lower r = name_lower e" by (simp add: holds_entry_def)
  have "lowered_name2 c = Inr (name_lower r) \<and> select_by_name_lower (name_lower r) d' = Some r \<and>
        (\<exists>e. build_entry2 E rm i c = Inr e \<and> holds_entry e r)"
    using e d' r k build_entry2_key [OF e] by simp
  then show ?thesis by (rule exI)
qed

lemma refresh_step2_other:
  assumes "refresh_step2 E rm i c d = Inr d'" "lowered_name2 c \<noteq> Inr k"
  shows "select_by_name_lower k d' = select_by_name_lower k d"
proof -
  from assms(1) obtain e where e: "build_entry2 E rm i c = Inr e" and d': "d' = upsert2 e d"
    by (auto simp: refresh_step2_def split: sum.splits option.splits)
  have "k \<noteq> name_lower e" using build_entry2_key [OF e] assms(2) by auto
  then show ?thesis using d' upsert2_select_other by simp
qed

lemma status_refresh_catch2 [simp]: "status (refresh_catch2 err) = 503"
  by (simp add: refresh_catch2_def)

lemma refresh2_200:
  assumes "status (fst (refresh2 E s)) = 200" "fetchExternalData2 E = (countries, rates)"
    "iterate countries = Inr cs"
  shows "for_of (refresh_step2 E (js_prop rates ''rates'')) 0 cs (table s) = Inr (table (snd (refresh2 E s)))"
  using assms
  by (auto simp: refresh2_def transaction2_def split: if_splits sum.splits option.splits)

lemma refresh2_persists:
  assumes "fetchExternalData2 E = (countries, rates)" and "iterate countries = Inr cs"
    and "status (fst (refresh2 E s)) = 200" and "i < length cs"
    and "\<forall>j. i < j \<and> j < length cs \<longrightarrow> lowered_name2 (cs ! j) \<noteq> lowered_name2 (cs ! i)"
  shows "\<exists>r e. lowered_name2 (cs ! i) = Inr (name_lower r) \<and>
               select_by_name_lower (name_lower r) (table (snd (refresh2 E s))) = Some r \<and>
               build_entry2 E (js_prop rates ''rates'') i (cs ! i) = Inr e \<and> holds_entry e r"
proof -
  let ?rm = "js_prop rates ''rates''"
  have run: "for_of (refresh_step2 E ?rm) 0 cs (table s) = Inr (table (snd (refresh2 E s)))"
    using refresh2_200 assms(3,1,2) by blast
  have "\<exists>r. lowered_name2 (cs ! i) = Inr (name_lower r) \<and>
            select_by_name_lower (name_lower r) (table (snd (refresh2 E s))) = Some r \<and>
            (\<exists>e. build_entry2 E ?rm (0 + i) (cs ! i) = Inr e \<and> holds_entry e r)"
  proof (rule for_of_last_write [where I = "\<lambda>d. True" and step = "refresh_step2 E ?rm" and key = lowered_name2
        and Q = "\<lambda>i c r. \<exists>e. build_entry2 E ?rm i c = Inr e \<and> holds_entry e r"])
    show "\<And>i c d d'. True \<Longrightarrow> refresh_step2 E ?rm i c d = Inr d' \<Longrightarrow> True" by simp
    show "\<And>i c d d'. True \<Longrightarrow> refresh_step2 E ?rm i c d = Inr d' \<Longrightarrow>
            \<exists>r. lowered_name2 c = Inr (name_lower r) \<and> select_by_name_lower (name_lower r) d' = Some r \<and>
                (\<exists>e. build_entry2 E ?rm i c = Inr e \<and> holds_entry e r)"
      by (rule refresh_step2_writes)
    show "\<And>i c d d' k. True \<Longrightarrow> refresh_step2 E ?rm i c d = Inr d' \<Longrightarrow> lowered_name2 c \<noteq> Inr k \<Longrightarrow>
            select_by_name_lower k d' = select_by_name_lower k d"
      by (rule refresh_step2_other)
    show "for_of (refresh_step2 E ?rm) 0 cs (table s) = Inr (table (snd (refresh2 E s)))" by (rule run)
    show True by simp
    show "i < length cs" by (rule assms(4))
    show "\<forall>j'. i < j' \<and> j' < length cs \<longrightarrow> lowered_name2 (cs ! j') \<noteq> lowered_name2 (cs ! i)"
      by (rule assms(5))
  qed
  then show ?thesis by auto
qed

section \<open>The example run, evaluated\<close>

lemma example_lower:
  "toLowerCase ''Nigeria'' = ''nigeria''" "toLowerCase ''Atlantis'' = ''atlantis''"
  "toLowerCase ''Wakanda'' = ''wakanda''" "toLowerCase ''Narnia'' = ''narnia''"
  by code_simp+

lemmas example_defs = example_env_def example_state_def example_countries_def example_rates_def
  nigeria_def atlantis_def wakanda_def narnia_def example_builtin_def
  object_prototype_functions_def

lemmas refresh_defs = refresh_def transaction_def refresh_step_def build_entry_def
      currency_code_of_def population_of_def js_or_def js_and_def lowered_name_def
      upsert_def select_by_name_lower_def update_by_id_def set_columns_def
      insert_row_def computeEstimatedGdp_def randInt_def
      generateSummaryImage_def

lemma example_table:
  "table (snd (refresh example_env example_state)) =
     \<lparr>rows =
        [\<lparr>name = JStr ''Nigeria'', name_lower = ''nigeria'',
            capital = JNull, region = JNull,
            population = Some (Fin 206139589), currency_code = JStr ''NGN'',
            exchange_rate = Some (Fin 1500),
            estimated_gdp = Some (Fin (206139589 * 1250 / 1500)), flag_url = JNull,
            last_refreshed_at = 42, row_id = 1\<rparr>,
         \<lparr>name = JStr ''Atlantis'', name_lower = ''atlantis'',
            capital = JNull, region = JNull, population = None,
            currency_code = JNull, exchange_rate = None,
            estimated_gdp = Some (Fin 0), flag_url = JNull,
            last_refreshed_at = 42, row_id = 2\<rparr>,
         \<lparr>name = JStr ''Wakanda'', name_lower = ''wakanda'',
            capital = JNull, region = JNull, population = Some (Fin 1000),
            currency_code = JStr ''WKD'', exchange_rate = None,
            estimated_gdp = None, flag_url = JNull, last_refreshed_at = 42,
            row_id = 3\<rparr>,
         \<lparr>name = JStr ''Narnia'', name_lower = ''narnia'', capital = JNull,
            region = JNull, population = None, currency_code = JStr ''NGN'',
            exchange_rate = Some (Fin 1500), estimated_gdp = None,
            flag_url = JNull, last_refreshed_at = 42, row_id = 4\<rparr>],
      next_id = 5\<rparr>"
  by (simp add: example_defs refresh_defs example_lower)

lemma example_status: "status (fst (refresh example_env example_state)) = 200"
  by (simp add: example_defs refresh_defs example_lower)

section \<open>Persisted records\<close>

lemma last_of_name_later:
  assumes "last_of_name key cs i"
  shows "i < length cs \<and> (\<forall>j. i < j \<and> j < length cs \<longrightarrow> key (cs ! j) \<noteq> key (cs ! i))"
proof -
  have i: "i < length cs" and all: "list_all (\<lambda>c. key c \<noteq> key (cs ! i)) (drop (Suc i) cs)"
    using assms by (simp_all add: last_of_name_def)
  have nth: "\<forall>n < length (drop (Suc i) cs). key (drop (Suc i) cs ! n) \<noteq> key (cs ! i)"
    using all by (simp only: list_all_length)
  have "key (cs ! j) \<noteq> key (cs ! i)" if "i < j" "j < length cs" for j
  proof -
    have a: "j - Suc i < length (drop (Suc i) cs)" using that by simp
    have b: "drop (Suc i) cs ! (j - Suc i) = cs ! j" using that by simp
    from nth a have "key (drop (Suc i) cs ! (j - Suc i)) \<noteq> key (cs ! i)" by blast
    with b show ?thesis by simp
  qed
  with i show ?thesis by blast
qed

lemma refresh_persisted:
  assumes "fetch_result E = Inr (countries, rates)" and "iterate countries = Inr cs"
    and "status (fst (refresh E s)) = 200" and "db_ok (table s)"
    and "last_of_name lowered_name cs i"
  shows "\<exists>r e. persisted lowered_name (snd (refresh E s)) (cs ! i) = Some r \<and>
               build_entry E (js_prop rates ''rates'') i (cs ! i) = Inr e \<and> holds_entry e r"
proof -
  from last_of_name_later [OF assms(5)]
  have i: "i < length cs"
    and l: "\<forall>j. i < j \<and> j < length cs \<longrightarrow> lowered_name (cs ! j) \<noteq> lowered_name (cs ! i)"
    by simp_all
  from refresh_persists [OF assms(1-4) i l] obtain r e where
    "lowered_name (cs ! i) = Inr (name_lower r)"
    "select_by_name_lower (name_lower r) (table (snd (refresh E s))) = Some r"
    "build_entry E (js_prop rates ''rates'') i (cs ! i) = Inr e" "holds_entry e r" by blast
  then have "persisted lowered_name (snd (refresh E s)) (cs ! i) = Some r \<and>
             build_entry E (js_prop rates ''rates'') i (cs ! i) = Inr e \<and> holds_entry e r"
    by (simp add: persisted_def)
  then show ?thesis by blast
qed

lemma refresh2_persisted:
  assumes "fetchExternalData2 E = (countries, rates)" and "iterate countries = Inr cs"
    and "status (fst (refresh2 E s)) = 200" and "last_of_name lowered_name2 cs i"
  shows "\<exists>r e. persisted lowered_name2 (snd (refresh2 E s)) (cs ! i) = Some r \<and>
               build_entry2 E (js_prop rates ''rates'') i (cs ! i) = Inr e \<and> holds_entry e r"
proof -
  from last_of_name_later [OF assms(4)]
  have i: "i < length cs"
    and l: "\<forall>j. i < j \<and> j < length cs \<longrightarrow> lowered_name2 (cs ! j) \<noteq> lowered_name2 (cs ! i)"
    by simp_all
  from refresh2_persists [OF assms(1-3) i l] obtain r e where
    "lowered_name2 (cs ! i) = Inr (name_lower r)"
    "select_by_name_lower (name_lower r) (table (snd (refresh2 E s))) = Some r"
    "build_entry2 E (js_prop rates ''rates'') i (cs ! i) = Inr e" "holds_entry e r" by blast
  then have "persisted lowered_name2 (snd (refresh2 E s)) (cs ! i) = Some r \<and>
             build_entry2 E (js_prop rates ''rates'') i (cs ! i) = Inr e \<and> holds_entry e r"
    by (simp add: persisted_def)
  then show ?thesis by blast
qed

lemma fetch2_of_fetch: "fetch_result E = Inr d \<Longrightarrow> fetchExternalData2 E = d"
  by (simp add: fetchExternalData2_def)

lemma example_fetch: "fetch_result example_env = Inr (JArr example_countries, example_rates)"
  by (simp add: example_env_def)

lemma example_db_ok: "db_ok (table example_state)"
  by (simp add: db_ok_def example_state_def)

lemma example_nth:
  "example_countries ! 0 = nigeria" "example_countries ! Suc 0 = atlantis"
  "example_countries ! 2 = wakanda" "example_countries ! 3 = narnia"
  by (simp_all add: example_countries_def)

lemma example_keys:
  "lowered_name nigeria = Inr ''nigeria''" "lowered_name atlantis = Inr ''atlantis''"
  "lowered_name wakanda = Inr ''wakanda''" "lowered_name narnia = Inr ''narnia''"
  by (simp_all add: nigeria_def atlantis_def wakanda_def narnia_def lowered_name_def js_or_def
      example_lower)

lemma example_keys2:
  "lowered_name2 nigeria = Inr ''nigeria''" "lowered_name2 atlantis = Inr ''atlantis''"
  "lowered_name2 wakanda = Inr ''wakanda''" "lowered_name2 narnia = Inr ''narnia''"
  by (simp_all add: nigeria_def atlantis_def wakanda_def narnia_def lowered_name2_def
      example_lower)

lemma example_last:
  "last_of_name lowered_name example_countries 0"
  "last_of_name lowered_name example_countries (Suc 0)"
  "last_of_name lowered_name example_countries 2"
  "last_of_name lowered_name example_countries 3"
  by (simp_all add: last_of_name_def example_countries_def example_keys)

lemma example_last2:
  "last_of_name lowered_name2 example_countries 0"
  "last_of_name lowered_name2 example_countries (Suc 0)"
  "last_of_name lowered_name2 example_countries 2"
  "last_of_name lowered_name2 example_countries 3"
  by (simp_all add: last_of_name_def example_countries_def example_keys2)

lemma example_iterate: "iterate (JArr example_countries) = Inr example_countries"
  by simp

lemma no_currency_code: "no_currency_entries c \<Longrightarrow> currency_code_of c = JNull"
  by (auto simp: no_currency_entries_def currency_code_of_def split: json.splits list.splits)

lemma no_currency_code2: "no_currency_entries c \<Longrightarrow> currency_code_of2 c = Inr JNull"
  by (auto simp: no_currency_entries_def currency_code_of2_def split: json.splits list.splits)

lemma number_or_null_nullish: "nullish v \<Longrightarrow> number_or_null h v = None"
  by (cases v) (simp_all add: number_or_null_def)

lemma population_missing2:
  assumes "population_missing h c"
  shows "number_or_null h (js_prop c ''population'') = None"
proof (cases "nullish (js_prop c ''population'')")
  case True
  then show ?thesis by (rule number_or_null_nullish)
next
  case False
  then show ?thesis using assms
    by (auto simp: population_missing_def population_of_def number_or_null_def)
qed

lemma computeEstimatedGdp_missing:
  "pop = None \<or> pop = Some NaN \<Longrightarrow> computeEstimatedGdp u pop rate = None"
  by (auto simp: computeEstimatedGdp_def)

lemma computeEstimatedGdp2_None [simp]:
  "computeEstimatedGdp2 u None rate = None" "computeEstimatedGdp2 u pop None = None"
  by (simp_all add: computeEstimatedGdp2_def)

lemma example_status2: "status (fst (refresh2 example_env example_state)) = 200"
  by (simp add: example_defs refresh2_def fetchExternalData2_def transaction2_def refresh_step2_def
      build_entry2_def currency_code_of2_def number_or_null_def lowered_name2_def js_or_def
      upsert2_def set_columns_def insert_row_def computeEstimatedGdp2_def randInt_def example_lower)

lemma example_atlantis:
  "no_currency_entries atlantis" "population_missing example_env atlantis"
  by (simp_all add: atlantis_def no_currency_entries_def population_missing_def population_of_def)

lemma example_narnia:
  "population_missing example_env narnia" "truthy (currency_code_of narnia)"
  by (simp_all add: narnia_def population_missing_def population_of_def
      currency_code_of_def js_or_def js_and_def)

lemma example_atlantis_row:
  "persisted lowered_name (snd (refresh example_env example_state)) atlantis =
     Some \<lparr>name = JStr ''Atlantis'', name_lower = ''atlantis'',
            capital = JNull, region = JNull, population = None,
            currency_code = JNull, exchange_rate = None,
            estimated_gdp = Some (Fin 0), flag_url = JNull,
            last_refreshed_at = 42, row_id = 2\<rparr>"
  by (simp add: persisted_def example_keys example_table select_by_name_lower_def)

lemmas refresh2_defs = refresh2_def fetchExternalData2_def transaction2_def refresh_step2_def
      build_entry2_def currency_code_of2_def number_or_null_def lowered_name2_def js_or_def
      upsert2_def set_columns_def insert_row_def computeEstimatedGdp2_def randInt_def

lemma example_atlantis_row2:
  "persisted lowered_name2 (snd (refresh2 example_env example_state)) atlantis =
     Some \<lparr>name = JStr ''Atlantis'', name_lower = ''atlantis'',
            capital = JNull, region = JNull, population = None,
            currency_code = JNull, exchange_rate = None,
            estimated_gdp = None, flag_url = JNull,
            last_refreshed_at = 42, row_id = 2\<rparr>"
  by (simp add: persisted_def example_keys2 select_by_name_lower_def
      example_defs refresh2_defs example_lower)

section \<open>The invariant of the key\<close>

lemma name_in_sync_set_columns [simp]: "name_in_sync (set_columns e r) = name_in_sync r"
  by (simp add: name_in_sync_def)

lemma lowered_name_in_sync:
  assumes "lowered_name c = Inr k"
  shows "k = toLowerCase (name_text (js_or (js_prop c ''name'') JNull))"
proof (cases "truthy (js_prop c ''name'')")
  case True
  then have "call_toLowerCase (js_prop c ''name'') = Inr k"
    using assms by (simp add: lowered_name_def js_or_def)
  then show ?thesis using True
    by (cases "js_prop c ''name''") (simp_all add: js_or_def)
next
  case False
  then show ?thesis using assms
    by (simp add: lowered_name_def js_or_def toLowerCase_def)
qed

lemma lowered_name2_in_sync:
  assumes "lowered_name2 c = Inr k"
  shows "k = toLowerCase (name_text (js_prop c ''name''))"
  using assms by (cases "js_prop c ''name''") (simp_all add: lowered_name2_def)

lemma build_entry_in_sync:
  assumes "build_entry E rm i c = Inr e"
  shows "name_lower e = toLowerCase (name_text (name e))"
  using lowered_name_in_sync [OF build_entry_key [OF assms]] build_entry_common [OF assms]
  by simp

lemma build_entry2_in_sync:
  assumes "build_entry2 E rm i c = Inr e"
  shows "name_lower e = toLowerCase (name_text (name e))"
proof -
  have "name e = js_prop c ''name''" using build_entry2_fields [OF assms] by blast
  then show ?thesis using lowered_name2_in_sync [OF build_entry2_key [OF assms]] by simp
qed

lemma insert_row_in_sync:
  assumes "list_all name_in_sync (rows d)" "name_lower e = toLowerCase (name_text (name e))"
  shows "list_all name_in_sync (rows (insert_row e d))"
  using assms by (simp add: insert_row_def name_in_sync_def)

lemma upsert_in_sync:
  assumes "list_all name_in_sync (rows d)" "name_lower e = toLowerCase (name_text (name e))"
  shows "list_all name_in_sync (rows (upsert e d))"
proof (cases "select_by_name_lower (name_lower e) d")
  case None
  then show ?thesis using insert_row_in_sync [OF assms] by (simp add: upsert_def)
next
  case (Some r0)
  then show ?thesis using assms(1)
    by (auto simp: upsert_def update_by_id_def list_all_iff)
qed

lemma upsert2_in_sync:
  assumes "list_all name_in_sync (rows d)" "name_lower e = toLowerCase (name_text (name e))"
  shows "list_all name_in_sync (rows (upsert2 e d))"
proof (cases "\<exists>r \<in> set (rows d). name_lower r = name_lower e")
  case False
  then show ?thesis using insert_row_in_sync [OF assms] by (simp add: upsert2_def)
next
  case True
  then show ?thesis using assms(1)
    by (auto simp: upsert2_def list_all_iff)
qed

lemma refresh_step_in_sync:
  assumes "list_all name_in_sync (rows d)" "refresh_step E rm i c d = Inr d'"
  shows "list_all name_in_sync (rows d')"
proof -
  from assms(2) obtain e where e: "build_entry E rm i c = Inr e" and d': "d' = upsert e d"
    by (auto simp: refresh_step_def split: sum.splits option.splits)
  show ?thesis using upsert_in_sync [OF assms(1) build_entry_in_sync [OF e]] d' by simp
qed

lemma refresh_step2_in_sync:
  assumes "list_all name_in_sync (rows d)" "refresh_step2 E rm i c d = Inr d'"
  shows "list_all name_in_sync (rows d')"
proof -
  from assms(2) obtain e where e: "build_entry2 E rm i c = Inr e" and d': "d' = upsert2 e d"
    by (auto simp: refresh_step2_def split: sum.splits option.splits)
  show ?thesis using upsert2_in_sync [OF assms(1) build_entry2_in_sync [OF e]] d' by simp
qed

lemma transaction_in_sync:
  assumes "list_all name_in_sync (rows d)" "transaction E countries rm d = Inr d'"
  shows "list_all name_in_sync (rows d')"
proof -
  from assms(2) obtain cs where run: "for_of (refresh_step E rm) 0 cs d = Inr d'"
    by (auto simp: transaction_def split: sum.splits option.splits)
  show ?thesis
  proof (rule for_of_invariant [where I = "\<lambda>d. list_all name_in_sync (rows d)"
        and step = "refresh_step E rm"])
    show "\<And>i c d d'. list_all name_in_sync (rows d) \<Longrightarrow> refresh_step E rm i c d = Inr d' \<Longrightarrow>
            list_all name_in_sync (rows d')"
      by (rule refresh_step_in_sync)
    show "for_of (refresh_step E rm) 0 cs d = Inr d'" by (rule run)
    show "list_all name_in_sync (rows d)" by (rule assms(1))
  qed
qed

lemma transaction2_in_sync:
  assumes "list_all name_in_sync (rows d)" "transaction2 E countries rm d = Inr d'"
  shows "list_all name_in_sync (rows d')"
proof -
  from assms(2) obtain cs where run: "for_of (refresh_step2 E rm) 0 cs d = Inr d'"
    by (auto simp: transaction2_def split: sum.splits option.splits)
  show ?thesis
  proof (rule for_of_invariant [where I = "\<lambda>d. list_all name_in_sync (rows d)"
        and step = "refresh_step2 E rm"])
    show "\<And>i c d d'. list_all name_in_sync (rows d) \<Longrightarrow> refresh_step2 E rm i c d = Inr d' \<Longrightarrow>
            list_all name_in_sync (rows d')"
      by (rule refresh_step2_in_sync)
    show "for_of (refresh_step2 E rm) 0 cs d = Inr d'" by (rule run)
    show "list_all name_in_sync (rows d)" by (rule assms(1))
  qed
qed

lemma refresh_table:
  "table (snd (refresh E s)) = table s \<or>
   (\<exists>countries rm. transaction E countries rm (table s) = Inr (table (snd (refresh E s))))"
  by (auto simp: refresh_def split: sum.splits option.splits prod.splits)

lemma refresh2_table:
  "table (snd (refresh2 E s)) = table s \<or>
   (\<exists>countries rm. transaction2 E countries rm (table s) = Inr (table (snd (refresh2 E s))))"
  by (auto simp: refresh2_def split: sum.splits option.splits prod.splits)

lemma example_in_sync: "list_all name_in_sync (rows (table example_state))"
  by (simp add: example_state_def name_in_sync_def example_lower)

section \<open>One timestamp per run\<close>

lemma exists_last_of_name:
  assumes "i < length cs"
  shows "\<exists>j. last_of_name key cs j \<and> key (cs ! j) = key (cs ! i)"
proof -
  let ?J = "{j. j < length cs \<and> key (cs ! j) = key (cs ! i)}"
  have fin: "finite ?J" by simp
  have ne: "?J \<noteq> {}" using assms by auto
  let ?m = "Max ?J"
  have m: "?m \<in> ?J" using Max_in [OF fin ne] .
  then have ml: "?m < length cs" and mk: "key (cs ! ?m) = key (cs ! i)" by simp_all
  have later: "key c \<noteq> key (cs ! ?m)" if "c \<in> set (drop (Suc ?m) cs)" for c
  proof
    assume eq: "key c = key (cs ! ?m)"
    from that obtain n where n: "n < length (drop (Suc ?m) cs)" "drop (Suc ?m) cs ! n = c"
      by (auto simp: in_set_conv_nth)
    then have "Suc ?m + n < length cs" and "cs ! (Suc ?m + n) = c" by simp_all
    then have "Suc ?m + n \<in> ?J" using eq mk by simp
    then have "Suc ?m + n \<le> ?m" using Max_ge [OF fin] by blast
    then show False by simp
  qed
  have "last_of_name key cs ?m"
    using ml later by (simp add: last_of_name_def list_all_iff)
  with mk show ?thesis by blast
qed

lemma persisted_same_key: "key c = key c' \<Longrightarrow> persisted key s c = persisted key s c'"
  by (simp add: persisted_def)

lemma refresh_200_body:
  "status (fst (refresh E s)) = 200 \<Longrightarrow>
   fst (refresh E s) =
     \<lparr>status = 200,
      body = RefreshBody ''Refresh completed'' (length (rows (table (snd (refresh E s))))) (clock_now E)\<rparr>"
  by (auto simp: refresh_def split: sum.splits option.splits prod.splits if_splits)

section \<open>Lookup and delete by name\<close>

lemma find_exists: "x \<in> set xs \<Longrightarrow> P x \<Longrightarrow> \<exists>y. find P xs = Some y \<and> P y"
  by (induction xs) auto

lemma get_country2_eq: "get_country2 db_error param s = get_country db_error param s"
  by (simp add: get_country2_def get_country_def)

lemma delete_country2_eq: "delete_country2 db_error param s = delete_country db_error param s"
  by (auto simp: delete_country2_def delete_country_def Let_def split: option.splits)

lemma example_casing: "toLowerCase ''NIGERIA'' = ''nigeria''"
  by code_simp

section \<open>A failing image\<close>

lemma Number_js_image_error [simp]: "Number_js (E\<lparr>image_error := b\<rparr>) v = Number_js E v"
  by (cases v) simp_all

lemma js_lookup_image_error [simp]: "js_lookup (E\<lparr>image_error := b\<rparr>) v k = js_lookup E v k"
  by (cases v) (simp_all split: option.splits)

lemma property_key_image_error [simp]: "property_key (E\<lparr>image_error := b\<rparr>) v = property_key E v"
  by (cases v) simp_all

lemma build_entry_image_error [simp]:
  "build_entry (E\<lparr>image_error := b\<rparr>) rm i c = build_entry E rm i c"
  by (simp add: build_entry_def population_of_def Let_def
      cong: sum.case_cong prod.case_cong if_cong)

lemma build_entry2_image_error [simp]:
  "build_entry2 (E\<lparr>image_error := b\<rparr>) rm i c = build_entry2 E rm i c"
  by (simp add: build_entry2_def number_or_null_def Let_def
      cong: sum.case_cong prod.case_cong if_cong)

lemma refresh_step_image_error [simp]:
  "refresh_step (E\<lparr>image_error := b\<rparr>) rm = refresh_step E rm"
  by (intro ext) (simp add: refresh_step_def cong: sum.case_cong option.case_cong)

lemma refresh_step2_image_error [simp]:
  "refresh_step2 (E\<lparr>image_error := b\<rparr>) rm = refresh_step2 E rm"
  by (intro ext) (simp add: refresh_step2_def cong: sum.case_cong option.case_cong)

lemma transaction_image_error [simp]:
  "transaction (E\<lparr>image_error := b\<rparr>) countries rm d = transaction E countries rm d"
  by (simp add: transaction_def cong: sum.case_cong option.case_cong)

lemma transaction2_image_error [simp]:
  "transaction2 (E\<lparr>image_error := b\<rparr>) countries rm d = transaction2 E countries rm d"
  by (simp add: transaction2_def cong: sum.case_cong option.case_cong)

lemma refresh_image_error:
  "fst (refresh (E\<lparr>image_error := b\<rparr>) s) = fst (refresh E s) \<and>
   table (snd (refresh (E\<lparr>image_error := b\<rparr>) s)) = table (snd (refresh E s))"
  by (auto simp: refresh_def split: sum.splits option.splits prod.splits)

lemma refresh2_image_error:
  "fst (refresh2 (E\<lparr>image_error := b\<rparr>) s) = fst (refresh2 E s) \<and>
   table (snd (refresh2 (E\<lparr>image_error := b\<rparr>) s)) = table (snd (refresh2 E s))"
  by (auto simp: refresh2_def fetchExternalData2_def split: sum.splits option.splits prod.splits)

lemma refresh_image_kept: "image_error E \<Longrightarrow> image (snd (refresh E s)) = image s"
  by (auto simp: refresh_def generateSummaryImage_def split: sum.splits option.splits prod.splits)

lemma refresh2_image_kept: "image_error E \<Longrightarrow> image (snd (refresh2 E s)) = image s"
  by (auto simp: refresh2_def generateSummaryImage_def split: sum.splits option.splits prod.splits)

lemma example_transaction:
  "transaction image_fails_env (JArr example_countries) (js_prop example_rates ''rates'')
     (table example_state) = Inr (table (snd (refresh example_env example_state)))"
  by (simp add: image_fails_env_def example_defs refresh_defs example_lower)

lemma example_transaction2:
  "transaction2 image_fails_env (JArr example_countries) (js_prop example_rates ''rates'')
     (table example_state) = Inr (table (snd (refresh2 example_env example_state)))"
  by (simp add: image_fails_env_def example_defs refresh2_defs example_lower)



section \<open>The claims\<close>

text \<open>
  C1. After a refresh of index.js that answers 200, the record persisted for a country that
  has a currency code under which the rate mapping holds a value \<open>v\<close> (not \<open>null\<close>, not
  \<open>undefined\<close>) and a population that is a number (not \<open>null\<close>, not \<open>NaN\<close>) holds the
  mapped rate \<open>Number(v)\<close> as \<open>exchange_rate\<close> and
  \<open>population * m / exchange_rate\<close> as \<open>estimated_gdp\<close>, for an integer \<open>m\<close> with
  \<open>1000 \<le> m \<le> 2000\<close>. The country is the last of its lowered name in the input (a
  later one overwrites the record), \<open>id\<close> is a key of the table before the call, and
  \<open>Math.random()\<close> returns a value in \<open>[0, 1)\<close>.
\<close>

theorem C1_estimated_gdp_formula:
  assumes "fetch_result E = Inr (countries, rates)" and "iterate countries = Inr cs"
    and "status (fst (refresh E s)) = 200" and "db_ok (table s)"
    and "last_of_name lowered_name cs i"
    and "truthy (currency_code_of (cs ! i))"
    and "js_lookup E (js_prop rates ''rates'') (property_key E (currency_code_of (cs ! i))) = v"
    and "\<not> nullish v"
    and "population_of E (cs ! i) = Some p" and "p \<noteq> NaN"
    and "0 \<le> math_random E i" and "math_random E i < 1"
  shows "\<exists>r m. persisted lowered_name (snd (refresh E s)) (cs ! i) = Some r \<and>
               1000 \<le> m \<and> m \<le> 2000 \<and>
               exchange_rate r = Some (Number_js E v) \<and>
               estimated_gdp r = Some (js_div (js_mul p (Fin (of_int m))) (Number_js E v))"
proof -
  obtain r e where r: "persisted lowered_name (snd (refresh E s)) (cs ! i) = Some r"
      "build_entry E (js_prop rates ''rates'') i (cs ! i) = Inr e" "holds_entry e r"
    using refresh_persisted [OF assms(1-5)] by blast
  have e: "exchange_rate e = Some (Number_js E v)"
      "estimated_gdp e = computeEstimatedGdp (math_random E i) (Some p) (Some (Number_js E v))"
    using build_entry_rate [OF r(2) assms(6)] assms(7,8,9) by auto
  let ?m = "randInt (math_random E i) 1000 2000"
  have "estimated_gdp e = Some (js_div (js_mul p (Fin (of_int ?m))) (Number_js E v))"
    using e(2) assms(10) by (simp add: computeEstimatedGdp_def)
  moreover have "1000 \<le> ?m \<and> ?m \<le> 2000"
    using assms(11,12) by (rule randInt_range)
  ultimately have "persisted lowered_name (snd (refresh E s)) (cs ! i) = Some r \<and>
               1000 \<le> ?m \<and> ?m \<le> 2000 \<and>
               exchange_rate r = Some (Number_js E v) \<and>
               estimated_gdp r = Some (js_div (js_mul p (Fin (of_int ?m))) (Number_js E v))"
    using r e(1) by (simp add: holds_entry_def)
  then show ?thesis by blast
qed

theorem C1_estimated_gdp_formula_witness:
  "\<exists>r m. persisted lowered_name (snd (refresh example_env example_state)) nigeria = Some r \<and>
         1000 \<le> m \<and> m \<le> 2000 \<and>
         exchange_rate r = Some (Fin 1500) \<and>
         estimated_gdp r = Some (js_div (js_mul (Fin 206139589) (Fin (of_int m))) (Fin 1500))"
proof -
  have h6: "truthy (currency_code_of (example_countries ! 0))"
    by (simp add: example_nth nigeria_def currency_code_of_def js_or_def js_and_def)
  have h7: "js_lookup example_env (js_prop example_rates ''rates'')
              (property_key example_env (currency_code_of (example_countries ! 0))) = JNum (Fin 1500)"
    by (simp add: example_nth nigeria_def example_rates_def currency_code_of_def js_or_def js_and_def)
  have h8: "\<not> nullish (JNum (Fin 1500))" by simp
  have h9: "population_of example_env (example_countries ! 0) = Some (Fin 206139589)"
    by (simp add: example_nth nigeria_def population_of_def)
  have h10: "Fin 206139589 \<noteq> NaN" by simp
  have h11: "0 \<le> math_random example_env 0" by (simp add: example_env_def)
  have h12: "math_random example_env 0 < 1" by (simp add: example_env_def)
  from C1_estimated_gdp_formula [OF example_fetch example_iterate example_status example_db_ok
      example_last(1) h6 h7 h8 h9 h10 h11 h12]
  show ?thesis by (simp add: example_nth)
qed

text \<open>
  C2, as stated, fails on index.js: a country without population and without currency
  entries is persisted with \<open>estimated_gdp = 0\<close>, not \<open>null\<close>.
\<close>

theorem C2_no_currency_counterexample:
  "status (fst (refresh example_env example_state)) = 200 \<and>
   population_missing example_env atlantis \<and>
   (\<exists>r. persisted lowered_name (snd (refresh example_env example_state)) atlantis = Some r \<and>
        estimated_gdp r = Some (Fin 0) \<and> estimated_gdp r \<noteq> None)"
  by (simp add: example_status example_atlantis example_atlantis_row)

text \<open>
  C2, amended. After a refresh that answers 200, the record persisted for a country whose
  population is missing or not a number holds \<open>null\<close> as \<open>estimated_gdp\<close>: in index.js
  when the country has a currency code, whether the rate mapping contains it or not; in the
  second server file in every case. The country is the last of its lowered name in the
  input and, for index.js, \<open>id\<close> is a key of the table before the call.
\<close>

theorem C2_missing_population:
  assumes "fetch_result E = Inr (countries, rates)" and "iterate countries = Inr cs"
    and "population_missing E (cs ! i)"
  shows "(status (fst (refresh E s)) = 200 \<and> db_ok (table s) \<and> last_of_name lowered_name cs i \<and>
          truthy (currency_code_of (cs ! i)) \<longrightarrow>
            (\<exists>r. persisted lowered_name (snd (refresh E s)) (cs ! i) = Some r \<and>
                 estimated_gdp r = None))
       \<and> (status (fst (refresh2 E s)) = 200 \<and> last_of_name lowered_name2 cs i \<longrightarrow>
            (\<exists>r. persisted lowered_name2 (snd (refresh2 E s)) (cs ! i) = Some r \<and>
                 estimated_gdp r = None))"
proof (intro conjI impI)
  assume a: "status (fst (refresh E s)) = 200 \<and> db_ok (table s) \<and> last_of_name lowered_name cs i \<and>
          truthy (currency_code_of (cs ! i))"
  then obtain r e where r: "persisted lowered_name (snd (refresh E s)) (cs ! i) = Some r"
      "build_entry E (js_prop rates ''rates'') i (cs ! i) = Inr e" "holds_entry e r"
    using refresh_persisted [OF assms(1,2)] by blast
  have pop: "population_of E (cs ! i) = None \<or> population_of E (cs ! i) = Some NaN"
    using assms(3) by (simp add: population_missing_def)
  have "estimated_gdp e = None"
  proof (cases "nullish (js_lookup E (js_prop rates ''rates'') (property_key E (currency_code_of (cs ! i))))")
    case True
    then show ?thesis using build_entry_no_rate [OF r(2)] a by simp
  next
    case False
    then show ?thesis
      using build_entry_rate [OF r(2)] a computeEstimatedGdp_missing [OF pop] by simp
  qed
  then have "persisted lowered_name (snd (refresh E s)) (cs ! i) = Some r \<and> estimated_gdp r = None"
    using r by (simp add: holds_entry_def)
  then show "\<exists>r. persisted lowered_name (snd (refresh E s)) (cs ! i) = Some r \<and>
                 estimated_gdp r = None" by blast
next
  assume a: "status (fst (refresh2 E s)) = 200 \<and> last_of_name lowered_name2 cs i"
  then obtain r e where r: "persisted lowered_name2 (snd (refresh2 E s)) (cs ! i) = Some r"
      "build_entry2 E (js_prop rates ''rates'') i (cs ! i) = Inr e" "holds_entry e r"
    using refresh2_persisted [OF fetch2_of_fetch [OF assms(1)] assms(2)] by blast
  have "estimated_gdp e = None"
    using build_entry2_fields [OF r(2)] population_missing2 [OF assms(3)] by auto
  then have "persisted lowered_name2 (snd (refresh2 E s)) (cs ! i) = Some r \<and> estimated_gdp r = None"
    using r by (simp add: holds_entry_def)
  then show "\<exists>r. persisted lowered_name2 (snd (refresh2 E s)) (cs ! i) = Some r \<and>
                 estimated_gdp r = None" by blast
qed

theorem C2_missing_population_witness:
  "(\<exists>r. persisted lowered_name (snd (refresh example_env example_state)) narnia = Some r \<and>
        estimated_gdp r = None)
   \<and> (\<exists>r. persisted lowered_name2 (snd (refresh2 example_env example_state)) narnia = Some r \<and>
        estimated_gdp r = None)"
  using C2_missing_population [OF example_fetch example_iterate, of 3 example_state]
    example_status example_status2 example_db_ok example_last(4) example_last2(4) example_narnia
  by (simp add: example_nth)

text \<open>
  C3, as stated, fails on the second server file: a country without currency entries is
  persisted with \<open>estimated_gdp = null\<close>, not 0.
\<close>

theorem C3_second_file_counterexample:
  "status (fst (refresh2 example_env example_state)) = 200 \<and>
   no_currency_entries atlantis \<and>
   (\<exists>r. persisted lowered_name2 (snd (refresh2 example_env example_state)) atlantis = Some r \<and>
        estimated_gdp r = None \<and> estimated_gdp r \<noteq> Some (Fin 0))"
  by (simp add: example_status2 example_atlantis example_atlantis_row2)

text \<open>
  C3, amended. After a refresh that answers 200, the record persisted for a country with no
  currency entries holds \<open>null\<close> as \<open>exchange_rate\<close>; its \<open>estimated_gdp\<close> is exactly 0 in
  index.js and \<open>null\<close> in the second server file. The country is the last of its lowered
  name in the input and, for index.js, \<open>id\<close> is a key of the table before the call.
\<close>

theorem C3_no_currency_entries:
  assumes "fetch_result E = Inr (countries, rates)" and "iterate countries = Inr cs"
    and "no_currency_entries (cs ! i)"
  shows "(status (fst (refresh E s)) = 200 \<and> db_ok (table s) \<and> last_of_name lowered_name cs i \<longrightarrow>
            (\<exists>r. persisted lowered_name (snd (refresh E s)) (cs ! i) = Some r \<and>
                 exchange_rate r = None \<and> estimated_gdp r = Some (Fin 0)))
       \<and> (status (fst (refresh2 E s)) = 200 \<and> last_of_name lowered_name2 cs i \<longrightarrow>
            (\<exists>r. persisted lowered_name2 (snd (refresh2 E s)) (cs ! i) = Some r \<and>
                 exchange_rate r = None \<and> estimated_gdp r = None))"
proof (intro conjI impI)
  assume a: "status (fst (refresh E s)) = 200 \<and> db_ok (table s) \<and> last_of_name lowered_name cs i"
  then obtain r e where r: "persisted lowered_name (snd (refresh E s)) (cs ! i) = Some r"
      "build_entry E (js_prop rates ''rates'') i (cs ! i) = Inr e" "holds_entry e r"
    using refresh_persisted [OF assms(1,2)] by blast
  have "\<not> truthy (currency_code_of (cs ! i))"
    using no_currency_code [OF assms(3)] by simp
  then have "exchange_rate e = None \<and> estimated_gdp e = Some (Fin 0)"
    using build_entry_no_code [OF r(2)] by simp
  then have "persisted lowered_name (snd (refresh E s)) (cs ! i) = Some r \<and>
             exchange_rate r = None \<and> estimated_gdp r = Some (Fin 0)"
    using r by (simp add: holds_entry_def)
  then show "\<exists>r. persisted lowered_name (snd (refresh E s)) (cs ! i) = Some r \<and>
                 exchange_rate r = None \<and> estimated_gdp r = Some (Fin 0)" by blast
next
  assume a: "status (fst (refresh2 E s)) = 200 \<and> last_of_name lowered_name2 cs i"
  then obtain r e where r: "persisted lowered_name2 (snd (refresh2 E s)) (cs ! i) = Some r"
      "build_entry2 E (js_prop rates ''rates'') i (cs ! i) = Inr e" "holds_entry e r"
    using refresh2_persisted [OF fetch2_of_fetch [OF assms(1)] assms(2)] by blast
  have "exchange_rate e = None \<and> estimated_gdp e = None"
    using build_entry2_fields [OF r(2)] no_currency_code2 [OF assms(3)] by auto
  then have "persisted lowered_name2 (snd (refresh2 E s)) (cs ! i) = Some r \<and>
             exchange_rate r = None \<and> estimated_gdp r = None"
    using r by (simp add: holds_entry_def)
  then show "\<exists>r. persisted lowered_name2 (snd (refresh2 E s)) (cs ! i) = Some r \<and>
                 exchange_rate r = None \<and> estimated_gdp r = None" by blast
qed

theorem C3_no_currency_entries_witness:
  "(\<exists>r. persisted lowered_name (snd (refresh example_env example_state)) atlantis = Some r \<and>
        exchange_rate r = None \<and> estimated_gdp r = Some (Fin 0))
   \<and> (\<exists>r. persisted lowered_name2 (snd (refresh2 example_env example_state)) atlantis = Some r \<and>
        exchange_rate r = None \<and> estimated_gdp r = None)"
  using C3_no_currency_entries [OF example_fetch example_iterate, of "Suc 0" example_state]
    example_status example_status2 example_db_ok example_last(2) example_last2(2) example_atlantis
  by (simp add: example_nth)




text \<open>
  C5. If \<open>name_lower\<close> is the lower case of \<open>name\<close> in every row of the table, it is so in
  every row after a refresh, whatever the outcome of the refresh, in index.js and in the
  second server file; a name that is \<open>null\<close> counts as the empty string. The empty table
  satisfies the invariant, and rows are created by a refresh only.
\<close>

theorem C5_name_lower_in_sync:
  assumes "list_all name_in_sync (rows (table s))"
  shows "list_all name_in_sync (rows (table (snd (refresh E s)))) \<and>
         list_all name_in_sync (rows (table (snd (refresh2 E s))))"
proof
  show "list_all name_in_sync (rows (table (snd (refresh E s))))"
    using refresh_table [of E s] assms transaction_in_sync [OF assms] by auto
  show "list_all name_in_sync (rows (table (snd (refresh2 E s))))"
    using refresh2_table [of E s] assms transaction2_in_sync [OF assms] by auto
qed

theorem C5_name_lower_in_sync_witness:
  "list_all name_in_sync (rows (table (snd (refresh example_env example_state)))) \<and>
   list_all name_in_sync (rows (table (snd (refresh2 example_env example_state)))) \<and>
   list_all (\<lambda>r. name_lower r \<in> {''nigeria'', ''atlantis'', ''wakanda'', ''narnia''})
     (rows (table (snd (refresh example_env example_state))))"
  using C5_name_lower_in_sync [OF example_in_sync, of example_env]
  by (simp add: example_table)

text \<open>
  C6, as stated, fails on index.js: a rate response \<open>{"rates": "error"}\<close> has no rates
  mapping, yet it passes \<open>!rates || !rates.rates\<close>; the refresh answers 200, writes the
  four countries and the image.
\<close>

theorem C6_rates_not_a_mapping_counterexample:
  "fetch_result rates_string_env = Inr (JArr example_countries, JObj [(''rates'', JStr ''error'')]) \<and>
   status (fst (refresh rates_string_env example_state)) = 200 \<and>
   length (rows (table example_state)) = 1 \<and>
   length (rows (table (snd (refresh rates_string_env example_state)))) = 4 \<and>
   image example_state = None \<and>
   image (snd (refresh rates_string_env example_state)) \<noteq> None"
  by (simp add: rates_string_env_def example_defs refresh_defs example_lower)

text \<open>
  C6, amended. When the rate response is empty or its \<open>rates\<close> property is absent or
  falsy (\<open>null\<close>, \<open>false\<close>, 0, \<open>NaN\<close>, the empty string), the refresh of index.js answers
  503 and leaves the state as it was: the table and the image file are those before the
  call.
\<close>

theorem C6_malformed_rates_no_write:
  assumes "fetch_result E = Inr (countries, rates)"
    and "rates \<in> set falsy_values \<or> js_prop rates ''rates'' \<in> set falsy_values"
  shows "fst (refresh E s) =
           \<lparr>status = 503,
            body = ErrorBody ''External data source unavailable''
                     ''Could not fetch data from exchange rates API''\<rparr> \<and>
         table (snd (refresh E s)) = table s \<and>
         image (snd (refresh E s)) = image s \<and> snd (refresh E s) = s"
proof -
  have "\<not> truthy rates \<or> \<not> truthy (js_prop rates ''rates'')"
    using assms(2) by (simp add: falsy_values_iff)
  then show ?thesis using assms(1) by (auto simp: refresh_def)
qed

theorem C6_malformed_rates_no_write_witness:
  "status (fst (refresh malformed_rates_env example_state)) = 503 \<and>
   table (snd (refresh malformed_rates_env example_state)) = table example_state \<and>
   image (snd (refresh malformed_rates_env example_state)) = image example_state \<and>
   snd (refresh malformed_rates_env example_state) = example_state"
proof -
  have f: "fetch_result malformed_rates_env = Inr (JArr example_countries, JObj [(''result'', JStr ''error'')])"
    by (simp add: malformed_rates_env_def)
  have m: "JObj [(''result'', JStr ''error'')] \<in> set falsy_values \<or>
           js_prop (JObj [(''result'', JStr ''error'')]) ''rates'' \<in> set falsy_values"
    by (simp add: falsy_values_def)
  show ?thesis using C6_malformed_rates_no_write [OF f m] by simp
qed

text \<open>
  C7 fails on the code. With both sources answering and the database refusing the
  connection, the refresh of index.js answers 503 \<open>External data source unavailable\<close>,
  not 500; that of the second server file answers 503 as well and puts the message of
  the exception in the body.
\<close>

theorem C7_database_failure_answers_503:
  "fst (refresh database_down_env example_state) =
     \<lparr>status = 503,
      body = ErrorBody ''External data source unavailable'' ''External data source unavailable''\<rparr> \<and>
   fst (refresh2 database_down_env example_state) =
     \<lparr>status = 503,
      body = ErrorBody ''External data source unavailable'' ''connect ECONNREFUSED 127.0.0.1:3306''\<rparr>"
  by (simp add: database_down_env_def example_env_def example_rates_def refresh_def refresh2_def
      fetchExternalData2_def transaction_def transaction2_def refresh_catch_def refresh_catch2_def)

theorem C7_database_failure_answers_503_witness:
  "status (fst (refresh database_down_env example_state)) = 503 \<and>
   status (fst (refresh2 database_down_env example_state)) = 503 \<and>
   get_countries (Some (DbError ''connect ECONNREFUSED 127.0.0.1:3306'')) None None None example_state =
     internal_error"
  using C7_database_failure_answers_503 by (simp add: get_countries_def)

text \<open>
  C8. After a refresh of index.js that answers 200, the record persisted for every country
  of the input holds the instant \<open>now\<close> of the run as \<open>last_refreshed_at\<close>, and the
  response carries the same instant. \<open>id\<close> is a key of the table before the call.
\<close>

theorem C8_one_timestamp_per_run:
  assumes "fetch_result E = Inr (countries, rates)" and "iterate countries = Inr cs"
    and "status (fst (refresh E s)) = 200" and "db_ok (table s)" and "i < length cs"
  shows "\<exists>r n. persisted lowered_name (snd (refresh E s)) (cs ! i) = Some r \<and>
               last_refreshed_at r = clock_now E \<and>
               body (fst (refresh E s)) = RefreshBody ''Refresh completed'' n (clock_now E)"
proof -
  obtain j where j: "last_of_name lowered_name cs j" "lowered_name (cs ! j) = lowered_name (cs ! i)"
    using exists_last_of_name [OF assms(5)] by blast
  obtain r e where r: "persisted lowered_name (snd (refresh E s)) (cs ! j) = Some r"
      "build_entry E (js_prop rates ''rates'') j (cs ! j) = Inr e" "holds_entry e r"
    using refresh_persisted [OF assms(1-4) j(1)] by blast
  have p: "persisted lowered_name (snd (refresh E s)) (cs ! i) = Some r"
    using persisted_same_key [OF j(2)] r(1) by simp
  have t: "last_refreshed_at r = clock_now E"
    using build_entry_common [OF r(2)] r(3) by (simp add: holds_entry_def)
  have b: "body (fst (refresh E s)) =
             RefreshBody ''Refresh completed'' (length (rows (table (snd (refresh E s))))) (clock_now E)"
    using refresh_200_body [OF assms(3)] by (metis response.select_convs(2))
  from p t b show ?thesis by blast
qed

theorem C8_one_timestamp_per_run_witness:
  "(\<exists>r n. persisted lowered_name (snd (refresh example_env example_state)) nigeria = Some r \<and>
          last_refreshed_at r = 42 \<and>
          body (fst (refresh example_env example_state)) = RefreshBody ''Refresh completed'' n 42) \<and>
   (\<exists>r n. persisted lowered_name (snd (refresh example_env example_state)) narnia = Some r \<and>
          last_refreshed_at r = 42 \<and>
          body (fst (refresh example_env example_state)) = RefreshBody ''Refresh completed'' n 42)"
proof -
  have n: "clock_now example_env = 42" by (simp add: example_env_def)
  have i0: "0 < length example_countries" and i3: "3 < length example_countries"
    by (simp_all add: example_countries_def)
  show ?thesis
    using C8_one_timestamp_per_run [OF example_fetch example_iterate example_status example_db_ok i0]
      C8_one_timestamp_per_run [OF example_fetch example_iterate example_status example_db_ok i3]
    by (simp add: n example_nth)
qed

text \<open>
  C9. For a row of the table whose \<open>name_lower\<close> is the lower case of its \<open>name\<close> and a
  path parameter that is the name in any casing (its lower case is that of the name), with
  the database answering: GET /countries/:name answers 200 with a row of that
  \<open>name_lower\<close>; DELETE /countries/:name answers 204 and removes the row, after which
  the GET answers 404. The handlers of the second server file behave the same.
\<close>

theorem C9_lookup_any_casing:
  assumes "r \<in> set (rows (table s))" and "name_in_sync r"
    and "toLowerCase param = toLowerCase (name_text (name r))"
  shows "(\<exists>r'. get_country None param s = \<lparr>status = 200, body = RowBody r'\<rparr> \<and>
               name_lower r' = name_lower r) \<and>
         status (fst (delete_country None param s)) = 204 \<and>
         r \<notin> set (rows (table (snd (delete_country None param s)))) \<and>
         status (get_country None param (snd (delete_country None param s))) = 404 \<and>
         get_country2 None param s = get_country None param s \<and>
         delete_country2 None param s = delete_country None param s"
proof -
  have k: "name_lower r = toLowerCase param"
    using assms(2,3) by (simp add: name_in_sync_def)
  obtain r' where r': "find (\<lambda>x. name_lower x = toLowerCase param) (rows (table s)) = Some r'"
      "name_lower r' = toLowerCase param"
    using find_exists [OF assms(1), of "\<lambda>x. name_lower x = toLowerCase param"] k by blast
  have g: "get_country None param s = \<lparr>status = 200, body = RowBody r'\<rparr> \<and> name_lower r' = name_lower r"
    using r' k by (simp add: get_country_def select_by_name_lower_def)
  have "filter (\<lambda>x. name_lower x = toLowerCase param) (rows (table s)) \<noteq> []"
    using assms(1) k by (auto simp: filter_empty_conv)
  then have d: "status (fst (delete_country None param s)) = 204"
    by (simp add: delete_country_def Let_def)
  have rm: "r \<notin> set (rows (table (snd (delete_country None param s))))"
    using k by (simp add: delete_country_def Let_def)
  have "find (\<lambda>x. name_lower x = toLowerCase param)
          (filter (\<lambda>x. name_lower x \<noteq> toLowerCase param) (rows (table s))) = None"
    by (simp add: find_None_iff)
  then have a: "status (get_country None param (snd (delete_country None param s))) = 404"
    by (simp add: get_country_def delete_country_def Let_def select_by_name_lower_def)
  from g d rm a show ?thesis
    using get_country2_eq delete_country2_eq by blast
qed

theorem C9_lookup_any_casing_witness:
  "(\<exists>r'. get_country None ''NIGERIA'' example_state = \<lparr>status = 200, body = RowBody r'\<rparr> \<and>
         name_lower r' = ''nigeria'') \<and>
   status (fst (delete_country None ''NIGERIA'' example_state)) = 204 \<and>
   status (get_country None ''NIGERIA'' (snd (delete_country None ''NIGERIA'' example_state))) = 404 \<and>
   get_country2 None ''NIGERIA'' example_state = get_country None ''NIGERIA'' example_state \<and>
   delete_country2 None ''NIGERIA'' example_state = delete_country None ''NIGERIA'' example_state"
proof -
  let ?r = "\<lparr>name = JStr ''Nigeria'', name_lower = ''nigeria'', capital = JStr ''Lagos'',
             region = JNull, population = None, currency_code = JNull,
             exchange_rate = None, estimated_gdp = None, flag_url = JNull,
             last_refreshed_at = 7, row_id = 1\<rparr>"
  have h1: "?r \<in> set (rows (table example_state))" by (simp add: example_state_def)
  have h2: "name_in_sync ?r" by (simp add: name_in_sync_def example_lower)
  have h3: "toLowerCase ''NIGERIA'' = toLowerCase (name_text (name ?r))"
    by (simp add: example_casing example_lower)
  show ?thesis using C9_lookup_any_casing [OF h1 h2 h3] by simp
qed

text \<open>
  C10, as stated, fails: when the cache directory cannot be created, the
  \<open>ensureCacheDir()\<close> that the handler of index.js calls after the commit throws outside
  the renderer; the table holds the committed refresh, no image is produced, and the
  answer is 503. The same happens in both files when a query for the summary fails after
  the commit.
\<close>

theorem C10_cache_directory_counterexample:
  "status (fst (refresh mkdir_fails_env example_state)) = 503 \<and>
   table (snd (refresh mkdir_fails_env example_state)) =
     table (snd (refresh example_env example_state)) \<and>
   length (rows (table (snd (refresh mkdir_fails_env example_state)))) = 4 \<and>
   image (snd (refresh mkdir_fails_env example_state)) = None \<and>
   status (fst (refresh summary_query_fails_env example_state)) = 503 \<and>
   table (snd (refresh summary_query_fails_env example_state)) =
     table (snd (refresh example_env example_state)) \<and>
   image (snd (refresh summary_query_fails_env example_state)) = None \<and>
   status (fst (refresh2 summary_query_fails_env example_state)) = 503 \<and>
   table (snd (refresh2 summary_query_fails_env example_state)) =
     table (snd (refresh2 example_env example_state)) \<and>
   image (snd (refresh2 summary_query_fails_env example_state)) = None"
  by (simp add: mkdir_fails_env_def summary_query_fails_env_def example_defs refresh_defs
      refresh2_defs refresh_catch_def refresh_catch2_def example_lower)

text \<open>
  C10, amended. When rendering or writing the summary image fails inside
  \<open>generateSummaryImage\<close>, the failure is swallowed there: the response and the table of
  a refresh are those of the same refresh with a working renderer, and the image file
  stays as it was. Once the transaction is committed, the answer is 200 with the refresh
  payload even though no image is produced, provided that the statements of the handler
  between the commit and the renderer do not throw: the two queries for the summary and,
  in index.js, its own \<open>ensureCacheDir()\<close>. This holds for index.js and the second
  server file.
\<close>

theorem C10_image_failure_swallowed:
  assumes "fetch_result E = Inr (countries, rates)"
    and "truthy rates" and "truthy (js_prop rates ''rates'')"
    and "summary_query_error E = None" and "image_error E"
  shows "(transaction E countries (js_prop rates ''rates'') (table s) = Inr d \<and> mkdir_error E = None \<longrightarrow>
            refresh E s =
              (\<lparr>status = 200,
                body = RefreshBody ''Refresh completed'' (length (rows d)) (clock_now E)\<rparr>,
               \<lparr>table = d, image = image s\<rparr>))
       \<and> (transaction2 E countries (js_prop rates ''rates'') (table s) = Inr d2 \<longrightarrow>
            refresh2 E s =
              (\<lparr>status = 200,
                body = RefreshBody ''Refresh completed'' (length (rows d2)) (clock_now E)\<rparr>,
               \<lparr>table = d2, image = image s\<rparr>))
       \<and> fst (refresh E s) = fst (refresh (E\<lparr>image_error := False\<rparr>) s)
       \<and> table (snd (refresh E s)) = table (snd (refresh (E\<lparr>image_error := False\<rparr>) s))
       \<and> image (snd (refresh E s)) = image s
       \<and> fst (refresh2 E s) = fst (refresh2 (E\<lparr>image_error := False\<rparr>) s)
       \<and> table (snd (refresh2 E s)) = table (snd (refresh2 (E\<lparr>image_error := False\<rparr>) s))
       \<and> image (snd (refresh2 E s)) = image s"
proof (intro conjI impI)
  assume "transaction E countries (js_prop rates ''rates'') (table s) = Inr d \<and> mkdir_error E = None"
  then show "refresh E s =
              (\<lparr>status = 200,
                body = RefreshBody ''Refresh completed'' (length (rows d)) (clock_now E)\<rparr>,
               \<lparr>table = d, image = image s\<rparr>)"
    using assms by (simp add: refresh_def generateSummaryImage_def)
next
  assume "transaction2 E countries (js_prop rates ''rates'') (table s) = Inr d2"
  then show "refresh2 E s =
              (\<lparr>status = 200,
                body = RefreshBody ''Refresh completed'' (length (rows d2)) (clock_now E)\<rparr>,
               \<lparr>table = d2, image = image s\<rparr>)"
    using assms by (simp add: refresh2_def fetchExternalData2_def generateSummaryImage_def)
next
  show "fst (refresh E s) = fst (refresh (E\<lparr>image_error := False\<rparr>) s)"
    using refresh_image_error [where E = E and b = False and s = s] by simp
  show "table (snd (refresh E s)) = table (snd (refresh (E\<lparr>image_error := False\<rparr>) s))"
    using refresh_image_error [where E = E and b = False and s = s] by simp
  show "image (snd (refresh E s)) = image s"
    using assms(5) by (rule refresh_image_kept)
  show "fst (refresh2 E s) = fst (refresh2 (E\<lparr>image_error := False\<rparr>) s)"
    using refresh2_image_error [where E = E and b = False and s = s] by simp
  show "table (snd (refresh2 E s)) = table (snd (refresh2 (E\<lparr>image_error := False\<rparr>) s))"
    using refresh2_image_error [where E = E and b = False and s = s] by simp
  show "image (snd (refresh2 E s)) = image s"
    using assms(5) by (rule refresh2_image_kept)
qed

theorem C10_image_failure_swallowed_witness:
  "fst (refresh image_fails_env example_state) =
     \<lparr>status = 200, body = RefreshBody ''Refresh completed'' 4 42\<rparr> \<and>
   image (snd (refresh image_fails_env example_state)) = None \<and>
   fst (refresh2 image_fails_env example_state) =
     \<lparr>status = 200, body = RefreshBody ''Refresh completed'' 4 42\<rparr> \<and>
   image (snd (refresh2 image_fails_env example_state)) = None \<and>
   image (snd (refresh example_env example_state)) \<noteq> None"
proof -
  have f: "fetch_result image_fails_env = Inr (JArr example_countries, example_rates)"
    by (simp add: image_fails_env_def example_env_def)
  have t: "truthy example_rates" "truthy (js_prop example_rates ''rates'')"
    by (simp_all add: example_rates_def)
  have q: "summary_query_error image_fails_env = None" "image_error image_fails_env"
    "mkdir_error image_fails_env = None" "clock_now image_fails_env = 42"
    by (simp_all add: image_fails_env_def example_env_def)
  have n: "length (rows (table (snd (refresh example_env example_state)))) = 4"
    by (simp add: example_table)
  have n2: "length (rows (table (snd (refresh2 example_env example_state)))) = 4"
    by (simp add: example_defs refresh2_defs example_lower)
  have i: "image (snd (refresh example_env example_state)) \<noteq> None"
    by (simp add: example_defs refresh_defs example_lower)
  have e: "image example_state = None" by (simp add: example_state_def)
  show ?thesis
    using C10_image_failure_swallowed [OF f t q(1,2), of example_state
        "table (snd (refresh example_env example_state))"
        "table (snd (refresh2 example_env example_state))"]
      example_transaction example_transaction2 q(3,4) n n2 i e
    by simp
qed

end
